theory Spec2Isabelle
  imports Main "HOL-Library.Sublist"
begin

section \<open>JavaScript values used by the program\<close>

text \<open>
  A thrown value is either an \<open>Error\<close> object, of which the program reads only the message,
  or some other value (\<open>err instanceof Error\<close> is false for it).
\<close>

datatype js_exn = Error string | NonError

text \<open>
  A state slot of type \<open>string | null\<close> is a \<open>string option\<close>; \<open>None\<close> stands for
  \<open>null\<close> and \<open>undefined\<close>. The program tests such slots by truthiness only:
  \<open>!x\<close> holds for \<open>null\<close>, \<open>undefined\<close> and the empty string.
\<close>

definition truthy :: "string option \<Rightarrow> bool" where
  "truthy x = (case x of None \<Rightarrow> False | Some s \<Rightarrow> s \<noteq> [])"

text \<open>\<open>s.includes(sub)\<close>: \<open>sub\<close> occurs in \<open>s\<close> as a contiguous run of characters.\<close>

fun str_includes :: "string \<Rightarrow> string \<Rightarrow> bool" where
  "str_includes [] sub = (sub = [])"
| "str_includes (c # cs) sub = (prefix sub (c # cs) \<or> str_includes cs sub)"

text \<open>
  \<open>s.split(sep)\<close> for a separator of one character: the pieces between the separators,
  always at least one piece.
\<close>

fun str_split :: "char \<Rightarrow> string \<Rightarrow> string list" where
  "str_split sep [] = [[]]"
| "str_split sep (c # cs) =
     (if c = sep then [] # str_split sep cs
      else (case str_split sep cs of p # ps \<Rightarrow> (c # p) # ps | [] \<Rightarrow> [[c]]))"

text \<open>\<open>xs[i]\<close> on an array: \<open>undefined\<close> out of range.\<close>

definition at_index :: "'a list \<Rightarrow> nat \<Rightarrow> 'a option" where
  "at_index xs i = (if i < length xs then Some (xs ! i) else None)"


section \<open>services/geminiService.ts\<close>

subsection \<open>fileToBase64\<close>

text \<open>
  A \<open>File\<close> is known to the program only through what the \<open>FileReader\<close> makes of it:
  \<open>onerror\<close> with an error value, or \<open>onload\<close> with the data URL in \<open>reader.result\<close>.
\<close>

record File =
  readAsDataURL :: "js_exn + string"

definition fileToBase64 :: "File \<Rightarrow> js_exn + string option" where
  "fileToBase64 file =
     (case readAsDataURL file of
        Inl err \<Rightarrow> Inl err
      | Inr result \<Rightarrow> Inr (at_index (str_split CHR '','' result) 1))"

subsection \<open>generateLogoImage\<close>

text \<open>
  The response of the image service as the program reads it:
  \<open>response.generatedImages\<close> may be missing, and of an image the program reads
  \<open>image.imageBytes\<close> without a check, as a string.
\<close>

record Image =
  imageBytes :: string

record GeneratedImage =
  image :: Image

record GenerateImagesResponse =
  generatedImages :: "GeneratedImage list option"

record GenerateImagesParameters =
  img_model :: string
  img_prompt :: string
  img_numberOfImages :: nat
  img_outputMimeType :: string
  img_aspectRatio :: string

definition logo_request :: "string \<Rightarrow> GenerateImagesParameters" where
  "logo_request prompt =
     \<lparr> img_model = ''imagen-4.0-generate-001'',
       img_prompt =
         ''a professional, modern, vector-style logo for a company. Description: ''
         @ [CHR 0x22] @ prompt @ [CHR 0x22]
         @ ''. The logo should be on a clean, solid-colored background. Minimalist, flat design.'',
       img_numberOfImages = 1,
       img_outputMimeType = ''image/png'',
       img_aspectRatio = ''1:1'' \<rparr>"

text \<open>
  The image service is a parameter: what \<open>ai.models.generateImages\<close> answers to a
  request, a rejection (\<open>Inl\<close>) or a response.
\<close>

type_synonym image_service = "GenerateImagesParameters \<Rightarrow> js_exn + GenerateImagesResponse"

definition generateLogoImage :: "image_service \<Rightarrow> string \<Rightarrow> js_exn + string" where
  "generateLogoImage generateImages prompt =
     (case generateImages (logo_request prompt) of
        Inl err \<Rightarrow> Inl err
      | Inr response \<Rightarrow>
          (case generatedImages response of
             Some (g # gs) \<Rightarrow> Inr (imageBytes (image g))
           | _ \<Rightarrow> Inl (Error ''Image generation failed.'')))"

subsection \<open>generateAnimatedVideo\<close>

text \<open>
  Modelled from the spec: the type \<open>AspectRatio\<close> of \<open>types.ts\<close>, a file of the repository
  that is not among the sources. The spec gives it as the enumeration of landscape (16:9)
  and portrait (9:16); these are the two values the component passes.
\<close>

datatype AspectRatio = Landscape_16_9 | Portrait_9_16

text \<open>
  The types of the remote client belong to its library, not to the repository; each
  record holds the fields the program reads or writes. The long-running operation as the
  program reads it: the \<open>done\<close> flag (the field \<open>op_done\<close>) and the chain
  \<open>operation.response?.generatedVideos?.[0]?.video?.uri\<close>, every link of which may be
  missing.
\<close>

record Video =
  uri :: "string option"

record GeneratedVideo =
  video :: "Video option"

record GenerateVideosResponse =
  generatedVideos :: "GeneratedVideo list option"

record GenerateVideosOperation =
  op_done :: bool
  op_response :: "GenerateVideosResponse option"

record GenerateVideosParameters =
  vid_model :: string
  vid_prompt :: string
  vid_imageBytes :: string
  vid_mimeType :: string
  vid_numberOfVideos :: nat
  vid_resolution :: string
  vid_aspectRatio :: AspectRatio

record FetchResponse =
  ok :: bool
  statusText :: string
  blob :: "js_exn + string"

text \<open>
  What the outside world answers during one run. The replies to the successive calls of
  \<open>ai.operations.getVideosOperation\<close> are a list, in the order of the calls; a run that
  asks for more replies than the list holds is still waiting for the remote service and
  has no outcome.
\<close>

record video_service =
  API_KEY :: string
  generateVideos :: "GenerateVideosParameters \<Rightarrow> js_exn + GenerateVideosOperation"
  getVideosOperation :: "(js_exn + GenerateVideosOperation) list"
  fetch :: "string \<Rightarrow> js_exn + FetchResponse"
  createObjectURL :: "string \<Rightarrow> string"

text \<open>What a run does that can be observed from outside, in the order it does it.\<close>

datatype effect =
    StatusUpdate string
  | GenerateVideos GenerateVideosParameters
  | Timeout nat
  | GetVideosOperation GenerateVideosOperation
  | Fetch string

definition loadingMessages :: "string list" where
  "loadingMessages =
     [ ''Warming up the animation engine...'',
       ''Teaching pixels to dance...'',
       ''Composing a visual symphony...'',
       ''Rendering the final masterpiece...'',
       ''Almost there, adding the final sparkle...'',
       ''Finalizing the sequence...'',
       ''Polishing the frames...'' ]"

definition video_request :: "string \<Rightarrow> string \<Rightarrow> AspectRatio \<Rightarrow> GenerateVideosParameters" where
  "video_request imageB64 prompt aspectRatio =
     \<lparr> vid_model = ''veo-3.1-fast-generate-preview'',
       vid_prompt = prompt,
       vid_imageBytes = imageB64,
       vid_mimeType = ''image/png'',
       vid_numberOfVideos = 1,
       vid_resolution = ''720p'',
       vid_aspectRatio = aspectRatio \<rparr>"

text \<open>
  The \<open>while (!operation.done)\<close> loop. Its arguments are the replies still to come, the
  current \<open>operation\<close> and the current \<open>messageIndex\<close>; it returns what it did and how it
  ended: \<open>None\<close> while it waits for a reply that does not come, the error of a rejected
  poll, or the operation that reported done.
\<close>

fun poll_loop ::
  "(js_exn + GenerateVideosOperation) list \<Rightarrow> GenerateVideosOperation \<Rightarrow> nat
     \<Rightarrow> effect list \<times> (js_exn + GenerateVideosOperation) option" where
  "poll_loop replies operation messageIndex =
     (if op_done operation then ([], Some (Inr operation))
      else
        (let messageIndex' = (messageIndex + 1) mod length loadingMessages;
             round = [Timeout 10000, StatusUpdate (loadingMessages ! messageIndex'),
                      GetVideosOperation operation]
         in case replies of
              [] \<Rightarrow> (round, None)
            | Inl err # replies' \<Rightarrow> (round, Some (Inl err))
            | Inr operation' # replies' \<Rightarrow>
                (case poll_loop replies' operation' messageIndex' of
                   (effects, outcome) \<Rightarrow> (round @ effects, outcome))))"

text \<open>\<open>operation.response?.generatedVideos?.[0]?.video?.uri\<close>\<close>

definition video_uri :: "GenerateVideosOperation \<Rightarrow> string option" where
  "video_uri operation =
     (case op_response operation of
        None \<Rightarrow> None
      | Some response \<Rightarrow>
          (case generatedVideos response of
             None \<Rightarrow> None
           | Some videos \<Rightarrow>
               (case at_index videos 0 of
                  None \<Rightarrow> None
                | Some v \<Rightarrow> (case video v of None \<Rightarrow> None | Some vd \<Rightarrow> uri vd))))"

text \<open>The part of the run after the loop, for the operation that reported done.\<close>

definition fetch_video ::
  "video_service \<Rightarrow> GenerateVideosOperation \<Rightarrow> effect list \<times> (js_exn + string)" where
  "fetch_video env operation =
     (if \<not> truthy (video_uri operation)
      then ([], Inl (Error ''Video generation operation completed but no video URI was found.''))
      else
        (let downloadLink = the (video_uri operation);
             url = downloadLink @ ''&key='' @ API_KEY env;
             effects = [StatusUpdate ''Fetching generated video...'', Fetch url]
         in case fetch env url of
              Inl err \<Rightarrow> (effects, Inl err)
            | Inr videoResponse \<Rightarrow>
                (if \<not> ok videoResponse
                 then (effects, Inl (Error (''Failed to download video: '' @ statusText videoResponse)))
                 else (case blob videoResponse of
                         Inl err \<Rightarrow> (effects, Inl err)
                       | Inr videoBlob \<Rightarrow> (effects, Inr (createObjectURL env videoBlob))))))"

definition generateAnimatedVideo ::
  "video_service \<Rightarrow> string \<Rightarrow> string \<Rightarrow> AspectRatio \<Rightarrow> effect list \<times> (js_exn + string) option" where
  "generateAnimatedVideo env imageB64 prompt aspectRatio =
     (let messageIndex = 0;
          request = video_request imageB64 prompt aspectRatio;
          start = [StatusUpdate (loadingMessages ! messageIndex), GenerateVideos request]
      in case generateVideos env request of
           Inl err \<Rightarrow> (start, Some (Inl err))
         | Inr operation \<Rightarrow>
             (case poll_loop (getVideosOperation env) operation messageIndex of
                (polling, None) \<Rightarrow> (start @ polling, None)
              | (polling, Some (Inl err)) \<Rightarrow> (start @ polling, Some (Inl err))
              | (polling, Some (Inr operation')) \<Rightarrow>
                  (case fetch_video env operation' of
                     (fetching, outcome) \<Rightarrow> (start @ polling @ fetching, Some outcome))))"


section \<open>The workflow controller (the \<open>App\<close> component)\<close>

subsection \<open>State\<close>

record App_state =
  apiKeySelected :: bool
  logoDescription :: string
  animationPrompt :: string
  aspectRatio :: AspectRatio
  logoImageBase64 :: "string option"
  generatedVideoUrl :: "string option"
  isGeneratingLogo :: bool
  isGeneratingVideo :: bool
  videoStatus :: string
  error :: "string option"

definition initial_state :: App_state where
  "initial_state =
     \<lparr> apiKeySelected = False, logoDescription = [], animationPrompt = [],
       aspectRatio = Landscape_16_9, logoImageBase64 = None, generatedVideoUrl = None,
       isGeneratingLogo = False, isGeneratingVideo = False, videoStatus = [],
       error = None \<rparr>"

text \<open>
  The workflow stage is not stored; it is what the results column renders: the logo
  spinner while \<open>isGeneratingLogo\<close>, the video spinner while \<open>isGeneratingVideo\<close>, the
  video when \<open>generatedVideoUrl\<close> is set, the logo when only \<open>logoImageBase64\<close> is set,
  the placeholder otherwise.
\<close>

datatype Stage = NoLogo | LogoGenerating | LogoReady | VideoGenerating | VideoReady

definition stage :: "App_state \<Rightarrow> Stage" where
  "stage s =
     (if isGeneratingLogo s then LogoGenerating
      else if isGeneratingVideo s then VideoGenerating
      else if truthy (generatedVideoUrl s) then VideoReady
      else if truthy (logoImageBase64 s) then LogoReady
      else NoLogo)"

subsection \<open>try / catch / finally\<close>

text \<open>
  A piece of handler code changes the state and either completes or throws. In
  \<open>try_catch_finally body handler finalizer\<close> the \<open>finalizer\<close> runs in every case, and
  only what the \<open>handler\<close> itself throws leaves the statement.
\<close>

type_synonym action = "App_state \<Rightarrow> (js_exn + unit) \<times> App_state"

definition try_catch_finally ::
  "action \<Rightarrow> (js_exn \<Rightarrow> action) \<Rightarrow> (App_state \<Rightarrow> App_state) \<Rightarrow> action" where
  "try_catch_finally body handler finalizer s =
     (case body s of
        (Inr u, s1) \<Rightarrow> (Inr u, finalizer s1)
      | (Inl err, s1) \<Rightarrow> (case handler err s1 of (r, s2) \<Rightarrow> (r, finalizer s2)))"

text \<open>
  \<open>const x = await call; setter(x)\<close> once the awaited promise has settled with
  \<open>outcome\<close>: a rejection is thrown at the \<open>await\<close>, before the setter runs.
\<close>

definition await_then :: "js_exn + 'a \<Rightarrow> ('a \<Rightarrow> App_state \<Rightarrow> App_state) \<Rightarrow> action" where
  "await_then outcome setter s =
     (case outcome of Inl err \<Rightarrow> (Inl err, s) | Inr x \<Rightarrow> (Inr (), setter x s))"

subsection \<open>handleImageUpload\<close>

text \<open>
  Every handler is split where it awaits: the part that runs at once when the event
  arrives, which returns the call it is now waiting for (if any), and the part that runs
  when that call has settled. Other events may be handled in between.
\<close>

definition handleImageUpload_begin :: "File list option \<Rightarrow> App_state \<Rightarrow> App_state \<times> File option" where
  "handleImageUpload_begin files s =
     (case (case files of None \<Rightarrow> None | Some fs \<Rightarrow> at_index fs 0) of
        Some file \<Rightarrow> (s\<lparr>error := None, generatedVideoUrl := None\<rparr>, Some file)
      | None \<Rightarrow> (s, None))"

definition handleImageUpload_resume :: "js_exn + string option \<Rightarrow> action" where
  "handleImageUpload_resume outcome =
     try_catch_finally
       (await_then outcome (\<lambda>base64 s. s\<lparr>logoImageBase64 := base64\<rparr>))
       (\<lambda>err s. (Inr (), s\<lparr>error := Some ''Failed to read image file.''\<rparr>))
       (\<lambda>s. s)"

text \<open>The handler run from event to end, nothing else happening in between.\<close>

definition handleImageUpload :: "File list option \<Rightarrow> action" where
  "handleImageUpload files s =
     (case handleImageUpload_begin files s of
        (s1, None) \<Rightarrow> (Inr (), s1)
      | (s1, Some file) \<Rightarrow> handleImageUpload_resume (fileToBase64 file) s1)"

subsection \<open>handleGenerateLogo\<close>

definition handleGenerateLogo_begin :: "App_state \<Rightarrow> App_state \<times> string option" where
  "handleGenerateLogo_begin s =
     (if logoDescription s = []
      then (s\<lparr>error := Some ''Please enter a description for your logo.''\<rparr>, None)
      else (s\<lparr>error := None, isGeneratingLogo := True, logoImageBase64 := None,
               generatedVideoUrl := None\<rparr>,
            Some (logoDescription s)))"

definition errorMessage_of :: "js_exn \<Rightarrow> string \<Rightarrow> string" where
  "errorMessage_of err fallback = (case err of Error message \<Rightarrow> message | NonError \<Rightarrow> fallback)"

definition handleGenerateLogo_resume :: "js_exn + string \<Rightarrow> action" where
  "handleGenerateLogo_resume outcome =
     try_catch_finally
       (await_then outcome (\<lambda>imageB64 s. s\<lparr>logoImageBase64 := Some imageB64\<rparr>))
       (\<lambda>err s.
          (let errorMessage = errorMessage_of err ''An unknown error occurred.''
           in (Inr (), s\<lparr>error := Some (''Logo generation failed: '' @ errorMessage)\<rparr>)))
       (\<lambda>s. s\<lparr>isGeneratingLogo := False\<rparr>)"

definition handleGenerateLogo :: "image_service \<Rightarrow> action" where
  "handleGenerateLogo generateImages s =
     (case handleGenerateLogo_begin s of
        (s1, None) \<Rightarrow> (Inr (), s1)
      | (s1, Some description) \<Rightarrow>
          handleGenerateLogo_resume (generateLogoImage generateImages description) s1)"

subsection \<open>handleGenerateVideo\<close>

definition handleGenerateVideo_begin ::
  "App_state \<Rightarrow> App_state \<times> (string \<times> string \<times> AspectRatio) option" where
  "handleGenerateVideo_begin s =
     (if \<not> truthy (logoImageBase64 s)
      then (s\<lparr>error := Some ''Please generate or upload a logo first.''\<rparr>, None)
      else if animationPrompt s = []
      then (s\<lparr>error := Some ''Please enter a prompt for the animation.''\<rparr>, None)
      else (s\<lparr>error := None, isGeneratingVideo := True, generatedVideoUrl := None\<rparr>,
            Some (the (logoImageBase64 s), animationPrompt s, aspectRatio s)))"

definition handleGenerateVideo_resume :: "js_exn + string \<Rightarrow> action" where
  "handleGenerateVideo_resume outcome =
     try_catch_finally
       (await_then outcome (\<lambda>videoUrl s. s\<lparr>generatedVideoUrl := Some videoUrl\<rparr>))
       (\<lambda>err s.
          (let errorMessage =
                 errorMessage_of err ''An unknown error occurred during video generation.''
           in if str_includes errorMessage ''Requested entity was not found''
              then (Inr (), s\<lparr>error := Some ''API Key not found or invalid. Please re-select your API Key.'',
                              apiKeySelected := False\<rparr>)
              else (Inr (), s\<lparr>error := Some (''Video generation failed: '' @ errorMessage)\<rparr>)))
       (\<lambda>s. s\<lparr>isGeneratingVideo := False, videoStatus := []\<rparr>)"

text \<open>\<open>setVideoStatus\<close> is the status callback: each \<open>StatusUpdate\<close> of the run sets the slot.\<close>

fun setVideoStatus_all :: "effect list \<Rightarrow> App_state \<Rightarrow> App_state" where
  "setVideoStatus_all [] s = s"
| "setVideoStatus_all (StatusUpdate message # effects) s =
     setVideoStatus_all effects (s\<lparr>videoStatus := message\<rparr>)"
| "setVideoStatus_all (_ # effects) s = setVideoStatus_all effects s"

text \<open>
  The handler run from event to end, nothing else happening in between; \<open>None\<close> when the
  run of \<open>generateAnimatedVideo\<close> has no outcome.
\<close>

definition handleGenerateVideo :: "video_service \<Rightarrow> App_state \<Rightarrow> ((js_exn + unit) \<times> App_state) option" where
  "handleGenerateVideo env s =
     (case handleGenerateVideo_begin s of
        (s1, None) \<Rightarrow> Some (Inr (), s1)
      | (s1, Some (imageB64, prompt, ratio)) \<Rightarrow>
          (case generateAnimatedVideo env imageB64 prompt ratio of
             (effects, None) \<Rightarrow> None
           | (effects, Some outcome) \<Rightarrow>
               Some (handleGenerateVideo_resume outcome (setVideoStatus_all effects s1))))"


subsection \<open>The component between events\<close>

text \<open>
  Between two events the component is its state together with the calls it is waiting
  for: the file reads, the logo requests and the video runs in flight, and whether the
  key check made on mount is still to come.
\<close>

record System =
  app :: App_state
  mounting :: bool
  reads :: "File list"
  logo_calls :: "string list"
  video_calls :: "(string \<times> string \<times> AspectRatio) list"

definition initial_system :: System where
  "initial_system =
     \<lparr> app = initial_state, mounting = True, reads = [], logo_calls = [], video_calls = [] \<rparr>"

text \<open>
  The events are the user's actions on the rendered controls and the settling of a call
  in flight. A settling event names the call by its position and carries what the outside
  world answered. \<open>SelectKey\<close> is the settling of \<open>window.aistudio.openSelectKey()\<close> in
  \<open>handleSelectKey\<close>, whose click changes nothing: it carries \<open>Inl\<close> when the call
  throws (as it does when \<open>window.aistudio\<close> is undefined) or rejects, and the setter is
  then not reached. Settling while the key is already selected changes nothing.
\<close>

datatype event =
    KeyChecked "bool option"
  | SelectKey "js_exn + unit"
  | TypeLogoDescription string
  | TypeAnimationPrompt string
  | ChooseAspectRatio AspectRatio
  | ChooseFile "File list option"
  | ClickGenerateLogo
  | ClickGenerateVideo
  | FileRead nat
  | LogoSettled nat image_service
  | VideoSettled nat video_service

definition remove_at :: "nat \<Rightarrow> 'a list \<Rightarrow> 'a list" where
  "remove_at i xs = take i xs @ drop (Suc i) xs"

text \<open>
  \<open>step e sys\<close> is \<open>None\<close> when the event cannot happen: the control is not rendered
  (the key selector replaces the whole page while \<open>apiKeySelected\<close> is false), the control
  is disabled (\<open>disabled={isGeneratingLogo || isGeneratingVideo}\<close> on the logo button,
  \<open>disabled={isGeneratingVideo || !logoImageBase64}\<close> on the animation button,
  \<open>disabled={!logoImageBase64}\<close> on the prompt field), or there is no such call in flight.
  The aspect-ratio buttons carry no \<open>disabled\<close> attribute and are taken as always
  available. \<open>generateAnimatedVideo\<close> calls the status callback with the first message
  before its first \<open>await\<close>, so that update belongs to the click; the later status
  updates of the run are applied when the run settles.
\<close>

definition step :: "event \<Rightarrow> System \<Rightarrow> System option" where
  "step e sys =
     (let s = app sys in
      case e of
        KeyChecked hasKey \<Rightarrow>
          (if mounting sys
           then Some (sys\<lparr>mounting := False,
                          app := s\<lparr>apiKeySelected := (case hasKey of None \<Rightarrow> True | Some b \<Rightarrow> b)\<rparr>\<rparr>)
           else None)
      | SelectKey outcome \<Rightarrow>
          (case outcome of
             Inl err \<Rightarrow> Some sys
           | Inr u \<Rightarrow> Some (sys\<lparr>app := s\<lparr>apiKeySelected := True\<rparr>\<rparr>))
      | TypeLogoDescription text \<Rightarrow>
          (if apiKeySelected s then Some (sys\<lparr>app := s\<lparr>logoDescription := text\<rparr>\<rparr>) else None)
      | TypeAnimationPrompt text \<Rightarrow>
          (if apiKeySelected s \<and> truthy (logoImageBase64 s)
           then Some (sys\<lparr>app := s\<lparr>animationPrompt := text\<rparr>\<rparr>) else None)
      | ChooseAspectRatio ratio \<Rightarrow>
          (if apiKeySelected s then Some (sys\<lparr>app := s\<lparr>aspectRatio := ratio\<rparr>\<rparr>) else None)
      | ChooseFile files \<Rightarrow>
          (if apiKeySelected s
           then (case handleImageUpload_begin files s of
                   (s1, None) \<Rightarrow> Some (sys\<lparr>app := s1\<rparr>)
                 | (s1, Some file) \<Rightarrow> Some (sys\<lparr>app := s1, reads := reads sys @ [file]\<rparr>))
           else None)
      | ClickGenerateLogo \<Rightarrow>
          (if apiKeySelected s \<and> \<not> (isGeneratingLogo s \<or> isGeneratingVideo s)
           then (case handleGenerateLogo_begin s of
                   (s1, None) \<Rightarrow> Some (sys\<lparr>app := s1\<rparr>)
                 | (s1, Some description) \<Rightarrow>
                     Some (sys\<lparr>app := s1, logo_calls := logo_calls sys @ [description]\<rparr>))
           else None)
      | ClickGenerateVideo \<Rightarrow>
          (if apiKeySelected s \<and> \<not> (isGeneratingVideo s \<or> \<not> truthy (logoImageBase64 s))
           then (case handleGenerateVideo_begin s of
                   (s1, None) \<Rightarrow> Some (sys\<lparr>app := s1\<rparr>)
                 | (s1, Some call) \<Rightarrow>
                     Some (sys\<lparr>app := s1\<lparr>videoStatus := loadingMessages ! 0\<rparr>,
                               video_calls := video_calls sys @ [call]\<rparr>))
           else None)
      | FileRead i \<Rightarrow>
          (if i < length (reads sys)
           then Some (sys\<lparr>app := snd (handleImageUpload_resume (fileToBase64 (reads sys ! i)) s),
                          reads := remove_at i (reads sys)\<rparr>)
           else None)
      | LogoSettled i generateImages \<Rightarrow>
          (if i < length (logo_calls sys)
           then Some (sys\<lparr>app := snd (handleGenerateLogo_resume
                                        (generateLogoImage generateImages (logo_calls sys ! i)) s),
                          logo_calls := remove_at i (logo_calls sys)\<rparr>)
           else None)
      | VideoSettled i env \<Rightarrow>
          (if i < length (video_calls sys)
           then (case video_calls sys ! i of
                   (imageB64, prompt, ratio) \<Rightarrow>
                     (case generateAnimatedVideo env imageB64 prompt ratio of
                        (effects, None) \<Rightarrow> None
                      | (effects, Some outcome) \<Rightarrow>
                          Some (sys\<lparr>app := snd (handleGenerateVideo_resume outcome
                                                   (setVideoStatus_all (tl effects) s)),
                                    video_calls := remove_at i (video_calls sys)\<rparr>)))
           else None))"

fun run :: "event list \<Rightarrow> System \<Rightarrow> System option" where
  "run [] sys = Some sys"
| "run (e # es) sys = (case step e sys of None \<Rightarrow> None | Some sys' \<Rightarrow> run es sys')"


subsection \<open>Reachable states\<close>

text \<open>
  A chosen file that can be read is read as a data URL, which has a comma before its
  payload. For such files the logo slot is not null whenever the state holds a video or
  waits for one; the rest of \<open>video_needs_logo\<close> is what makes this hold from step to
  step: there is at most one video run in flight, and only while \<open>isGeneratingVideo\<close> is
  set.
\<close>

definition data_url_file :: "File \<Rightarrow> bool" where
  "data_url_file file =
     (case readAsDataURL file of Inl err \<Rightarrow> True | Inr result \<Rightarrow> CHR '','' \<in> set result)"

definition data_url_event :: "event \<Rightarrow> bool" where
  "data_url_event e =
     (case e of ChooseFile (Some files) \<Rightarrow> list_all data_url_file files | _ \<Rightarrow> True)"

definition video_needs_logo :: "System \<Rightarrow> bool" where
  "video_needs_logo sys =
     ((generatedVideoUrl (app sys) \<noteq> None \<or> video_calls sys \<noteq> []
         \<longrightarrow> logoImageBase64 (app sys) \<noteq> None)
      \<and> (\<not> isGeneratingVideo (app sys) \<longrightarrow> video_calls sys = [])
      \<and> length (video_calls sys) \<le> 1
      \<and> list_all data_url_file (reads sys))"


section \<open>Reading a run\<close>

text \<open>The status messages, the waits and the polls of a run, each in the order they happened.\<close>

fun status_messages :: "effect list \<Rightarrow> string list" where
  "status_messages [] = []"
| "status_messages (StatusUpdate message # effects) = message # status_messages effects"
| "status_messages (_ # effects) = status_messages effects"

fun timeouts :: "effect list \<Rightarrow> nat list" where
  "timeouts [] = []"
| "timeouts (Timeout ms # effects) = ms # timeouts effects"
| "timeouts (_ # effects) = timeouts effects"

fun polls :: "effect list \<Rightarrow> GenerateVideosOperation list" where
  "polls [] = []"
| "polls (GetVideosOperation operation # effects) = operation # polls effects"
| "polls (_ # effects) = polls effects"

fun fetches :: "effect list \<Rightarrow> string list" where
  "fetches [] = []"
| "fetches (Fetch url # effects) = url # fetches effects"
| "fetches (_ # effects) = fetches effects"


section \<open>Example inputs\<close>

definition png_file :: File where
  "png_file = \<lparr> readAsDataURL = Inr ''data:image/png;base64,iVBORw0KGgo='' \<rparr>"

definition unreadable_file :: File where
  "unreadable_file = \<lparr> readAsDataURL = Inl NonError \<rparr>"

definition one_image :: "string \<Rightarrow> image_service" where
  "one_image bytes = (\<lambda>request. Inr \<lparr> generatedImages = Some [\<lparr> image = \<lparr> imageBytes = bytes \<rparr> \<rparr>] \<rparr>)"

definition no_image :: image_service where
  "no_image = (\<lambda>request. Inr \<lparr> generatedImages = Some [] \<rparr>)"

definition state_logo_ready :: App_state where
  "state_logo_ready =
     \<lparr> apiKeySelected = True, logoDescription = ''A minimalist fox icon'',
       animationPrompt = ''fox winks'', aspectRatio = Portrait_9_16,
       logoImageBase64 = Some ''iVBORw0KGgo='', generatedVideoUrl = None,
       isGeneratingLogo = False, isGeneratingVideo = False, videoStatus = [],
       error = None \<rparr>"

definition state_video_ready :: App_state where
  "state_video_ready = state_logo_ready \<lparr> generatedVideoUrl := Some ''blob:video-1'' \<rparr>"

definition image_unavailable :: image_service where
  "image_unavailable = (\<lambda>request. Inl (Error ''503 Service Unavailable''))"

definition op_pending :: GenerateVideosOperation where
  "op_pending = \<lparr> op_done = False, op_response = None \<rparr>"

definition op_with_video :: GenerateVideosOperation where
  "op_with_video =
     \<lparr> op_done = True,
       op_response = Some \<lparr> generatedVideos =
         Some [\<lparr> video = Some \<lparr> uri = Some ''https://example.test/files/abc:download?alt=media'' \<rparr> \<rparr>] \<rparr> \<rparr>"

definition op_without_video :: GenerateVideosOperation where
  "op_without_video = \<lparr> op_done = True, op_response = Some \<lparr> generatedVideos = None \<rparr> \<rparr>"

definition fetch_ok :: "string \<Rightarrow> js_exn + FetchResponse" where
  "fetch_ok = (\<lambda>url. Inr \<lparr> ok = True, statusText = ''OK'', blob = Inr ''video bytes'' \<rparr>)"

definition fetch_forbidden :: "string \<Rightarrow> js_exn + FetchResponse" where
  "fetch_forbidden = (\<lambda>url. Inr \<lparr> ok = False, statusText = ''Forbidden'', blob = Inr [] \<rparr>)"

definition env_two_polls :: video_service where
  "env_two_polls =
     \<lparr> API_KEY = ''KEY'', generateVideos = (\<lambda>request. Inr op_pending),
       getVideosOperation = [Inr op_pending, Inr op_with_video],
       fetch = fetch_ok, createObjectURL = (\<lambda>videoBlob. ''blob:video-2'') \<rparr>"

definition env_no_locator :: video_service where
  "env_no_locator = env_two_polls \<lparr> getVideosOperation := [Inr op_without_video] \<rparr>"

definition env_forbidden :: video_service where
  "env_forbidden = env_two_polls \<lparr> fetch := fetch_forbidden \<rparr>"

definition env_key_rejected :: video_service where
  "env_key_rejected =
     env_two_polls \<lparr> generateVideos := (\<lambda>request. Inl (Error ''Requested entity was not found.'')) \<rparr>"

definition env_quota :: video_service where
  "env_quota = env_two_polls \<lparr> generateVideos := (\<lambda>request. Inl (Error ''Quota exceeded.'')) \<rparr>"

definition both_busy_trace :: "event list" where
  "both_busy_trace =
     [ KeyChecked (Some True), TypeLogoDescription ''A minimalist fox icon'', ClickGenerateLogo,
       ChooseFile (Some [png_file]), FileRead 0, TypeAnimationPrompt ''fox winks'',
       ClickGenerateVideo ]"

definition both_busy_system :: System where
  "both_busy_system =
     \<lparr> app =
         \<lparr> apiKeySelected = True, logoDescription = ''A minimalist fox icon'',
           animationPrompt = ''fox winks'', aspectRatio = Landscape_16_9,
           logoImageBase64 = Some ''iVBORw0KGgo='', generatedVideoUrl = None,
           isGeneratingLogo = True, isGeneratingVideo = True,
           videoStatus = ''Warming up the animation engine...'', error = None \<rparr>,
       mounting = False, reads = [], logo_calls = [''A minimalist fox icon''],
       video_calls = [(''iVBORw0KGgo='', ''fox winks'', Landscape_16_9)] \<rparr>"
definition reading_system :: System where
  "reading_system = both_busy_system \<lparr> reads := [unreadable_file] \<rparr>"



definition late_video_trace :: "event list" where
  "late_video_trace =
     [ KeyChecked (Some True), ChooseFile (Some [png_file]), FileRead 0,
       TypeAnimationPrompt ''fox winks'', ClickGenerateVideo, ChooseFile (Some [unreadable_file]),
       VideoSettled 0 env_two_polls, FileRead 0 ]"

definition late_video_system :: System where
  "late_video_system =
     \<lparr> app =
         \<lparr> apiKeySelected = True, logoDescription = [],
           animationPrompt = ''fox winks'', aspectRatio = Landscape_16_9,
           logoImageBase64 = Some ''iVBORw0KGgo='', generatedVideoUrl = Some ''blob:video-2'',
           isGeneratingLogo = False, isGeneratingVideo = False, videoStatus = [],
           error = Some ''Failed to read image file.'' \<rparr>,
       mounting = False, reads = [], logo_calls = [], video_calls = [] \<rparr>"


section \<open>Properties of the services\<close>

declare poll_loop.simps [simp del]

text \<open>
  C5, as the code has it. When the image service answers with a response,
  \<open>generateLogoImage\<close> fails with the error ``Image generation failed.'' exactly when the
  response has no image list or an empty one; otherwise it returns the bytes of the first
  image as the service sent them, whatever they are (so a non-empty string whenever those
  bytes are non-empty).
\<close>

theorem generateLogoImage_result:
  assumes "generateImages (logo_request prompt) = Inr response"
  shows "(generateLogoImage generateImages prompt = Inl (Error ''Image generation failed.'')
            \<longleftrightarrow> generatedImages response = None \<or> generatedImages response = Some [])
         \<and> (\<forall>g gs. generatedImages response = Some (g # gs)
               \<longrightarrow> generateLogoImage generateImages prompt = Inr (imageBytes (image g)))"
  using assms by (auto simp: generateLogoImage_def split: option.splits list.splits)

theorem generateLogoImage_result_witness:
  "generateLogoImage (one_image ''iVBORw0KGgo='') ''A minimalist fox icon'' = Inr ''iVBORw0KGgo=''
   \<and> generateLogoImage no_image ''A minimalist fox icon'' = Inl (Error ''Image generation failed.'')"
proof -
  have one: "one_image ''iVBORw0KGgo='' (logo_request ''A minimalist fox icon'')
      = Inr \<lparr> generatedImages = Some [\<lparr> image = \<lparr> imageBytes = ''iVBORw0KGgo='' \<rparr> \<rparr>] \<rparr>"
    by (simp add: one_image_def)
  have none: "no_image (logo_request ''A minimalist fox icon'') = Inr \<lparr> generatedImages = Some [] \<rparr>"
    by (simp add: no_image_def)
  from generateLogoImage_result [of "one_image ''iVBORw0KGgo=''" "''A minimalist fox icon''", OF one]
    generateLogoImage_result [of no_image "''A minimalist fox icon''", OF none]
  show ?thesis by simp
qed

text \<open>
  C5 as the claim states it fails: with a non-empty description and a service that
  answers with one image of empty bytes, \<open>generateLogoImage\<close> succeeds with the empty
  string.
\<close>

theorem generateLogoImage_empty_success:
  "''A minimalist fox icon'' \<noteq> []
   \<and> generateLogoImage (one_image []) ''A minimalist fox icon'' = Inr []"
  by (simp add: generateLogoImage_def one_image_def)

lemma status_messages_append: "status_messages (xs @ ys) = status_messages xs @ status_messages ys"
  by (induction xs rule: status_messages.induct) auto

lemma timeouts_append: "timeouts (xs @ ys) = timeouts xs @ timeouts ys"
  by (induction xs rule: timeouts.induct) auto

lemma polls_append: "polls (xs @ ys) = polls xs @ polls ys"
  by (induction xs rule: polls.induct) auto

lemma fetches_append: "fetches (xs @ ys) = fetches xs @ fetches ys"
  by (induction xs rule: fetches.induct) auto

lemma length_loadingMessages: "length loadingMessages = 7"
  by (simp add: loadingMessages_def)

lemma poll_loop_done: "op_done operation \<Longrightarrow> poll_loop replies operation k = ([], Some (Inr operation))"
  by (simp add: poll_loop.simps)

lemma poll_loop_pending:
  "\<not> op_done operation \<Longrightarrow>
   poll_loop (Inr operation' # replies) operation k =
     (case poll_loop replies operation' (Suc k mod 7) of
        (effects, outcome) \<Rightarrow>
          ([Timeout 10000, StatusUpdate (loadingMessages ! (Suc k mod 7)),
            GetVideosOperation operation] @ effects, outcome))"
  by (simp add: poll_loop.simps [of "Inr operation' # replies"] length_loadingMessages Let_def)

lemma poll_loop_no_fetch: "fetches (fst (poll_loop replies operation k)) = []"
proof (induction replies operation k rule: poll_loop.induct)
  case (1 replies operation k)
  show ?case
  proof (cases "op_done operation")
    case True
    then show ?thesis by (simp add: poll_loop_done)
  next
    case False
    show ?thesis
    proof (cases replies)
      case Nil
      with False show ?thesis by (simp add: poll_loop.simps [of "[]"] Let_def)
    next
      case (Cons r replies')
      show ?thesis
      proof (cases r)
        case (Inl err)
        with False Cons show ?thesis by (simp add: poll_loop.simps [of "Inl err # replies'"] Let_def)
      next
        case (Inr operation')
        have "fetches (fst (poll_loop replies' operation' (Suc k mod 7))) = []"
          using "1.IH" [OF False refl refl Cons Inr] by (simp add: length_loadingMessages)
        with False Cons Inr show ?thesis
          by (auto simp: poll_loop_pending split: prod.splits)
      qed
    qed
  qed
qed

lemma poll_loop_run:
  assumes "\<forall>operation \<in> set pending. \<not> op_done operation" and "op_done completed"
  shows "\<exists>effects.
           poll_loop (map Inr (tl (pending @ [completed])) @ later) (hd (pending @ [completed])) k
             = (effects, Some (Inr completed))
         \<and> status_messages effects
             = map (\<lambda>i. loadingMessages ! ((k + i) mod 7)) [1..<Suc (length pending)]
         \<and> timeouts effects = replicate (length pending) 10000
         \<and> polls effects = pending"
  using assms(1)
proof (induction pending arbitrary: k)
  case Nil
  then show ?case using assms(2) by (simp add: poll_loop_done)
next
  case (Cons h hs)
  have h: "\<not> op_done h" and hs: "\<forall>operation \<in> set hs. \<not> op_done operation"
    using Cons.prems by simp_all
  obtain effects where
    run: "poll_loop (map Inr (tl (hs @ [completed])) @ later) (hd (hs @ [completed])) (Suc k mod 7)
            = (effects, Some (Inr completed))"
    and st: "status_messages effects
            = map (\<lambda>i. loadingMessages ! ((Suc k mod 7 + i) mod 7)) [1..<Suc (length hs)]"
    and ti: "timeouts effects = replicate (length hs) 10000"
    and po: "polls effects = hs"
    using Cons.IH [OF hs, of "Suc k mod 7"] by blast
  have unfold: "map Inr (tl ((h # hs) @ [completed])) @ later
      = Inr (hd (hs @ [completed])) # (map Inr (tl (hs @ [completed])) @ later)"
    by (cases hs) simp_all
  have idx: "(Suc k mod 7 + i) mod 7 = (k + Suc i) mod 7" for i
    by (simp add: mod_add_left_eq mod_Suc_eq)
  have shift: "map (\<lambda>i. loadingMessages ! ((k + i) mod 7)) [1..<Suc (length (h # hs))]
      = loadingMessages ! (Suc k mod 7)
          # map (\<lambda>i. loadingMessages ! ((k + Suc i) mod 7)) [1..<Suc (length hs)]"
  proof -
    have "[1..<Suc (length (h # hs))] = 1 # map Suc [1..<Suc (length hs)]"
      by (simp add: upt_conv_Cons map_Suc_upt del: upt_Suc)
    then show ?thesis by (simp add: comp_def del: upt_Suc)
  qed
  show ?case
    unfolding unfold
    apply (simp only: list.sel append_Cons)
    apply (simp only: poll_loop_pending [OF h] run)
    apply (rule exI [of _ "[Timeout 10000, StatusUpdate (loadingMessages ! (Suc k mod 7)),
            GetVideosOperation h] @ effects"])
    using st ti po shift idx
    apply (simp del: upt_Suc)
    done
qed

lemma fetch_video_no_uri:
  "\<not> truthy (video_uri operation) \<Longrightarrow>
   fetch_video env operation
     = ([], Inl (Error ''Video generation operation completed but no video URI was found.''))"
  by (simp add: fetch_video_def)

lemma fetch_video_effects:
  "truthy (video_uri operation) \<Longrightarrow>
   fst (fetch_video env operation)
     = [StatusUpdate ''Fetching generated video...'',
        Fetch (the (video_uri operation) @ ''&key='' @ API_KEY env)]"
  by (simp add: fetch_video_def Let_def split: sum.splits)

lemma fetch_video_status:
  "status_messages (fst (fetch_video env operation))
     = (if truthy (video_uri operation) then [''Fetching generated video...''] else [])"
  by (simp add: fetch_video_effects fetch_video_no_uri)

lemma fetch_video_quiet:
  "timeouts (fst (fetch_video env operation)) = [] \<and> polls (fst (fetch_video env operation)) = []"
  by (cases "truthy (video_uri operation)") (simp_all add: fetch_video_effects fetch_video_no_uri)

lemma generateAnimatedVideo_completed:
  assumes "generateVideos env (video_request imageB64 prompt ratio) = Inr operation"
    and "poll_loop (getVideosOperation env) operation 0 = (polling, Some (Inr operation'))"
  shows "generateAnimatedVideo env imageB64 prompt ratio
           = ([StatusUpdate (loadingMessages ! 0), GenerateVideos (video_request imageB64 prompt ratio)]
                @ polling @ fst (fetch_video env operation'),
              Some (snd (fetch_video env operation')))"
  using assms by (simp add: generateAnimatedVideo_def Let_def split: prod.splits)

text \<open>
  C1. Take a run of \<open>generateAnimatedVideo\<close> in which the operation handle reports ``not
  done'' exactly \<open>N\<close> times before it reports done: \<open>pending\<close> lists the \<open>N\<close> handles that
  were not done (the first is the answer to the request, the others are answers to polls)
  and \<open>completed\<close> is the handle that is done. The run returns, and up to the end of the
  loop the status callback is called \<open>N + 1\<close> times, the call number \<open>i\<close> (from 0) with the
  message at index \<open>i mod length loadingMessages\<close> of the fixed list; the waits are \<open>N\<close>
  waits of 10000 milliseconds, one before each poll; the polls are made with the \<open>N\<close>
  pending handles in order. When the completed handle carries a locator the one further
  status message is ``Fetching generated video...''.
\<close>

theorem generateAnimatedVideo_status_sequence:
  assumes "generateVideos env (video_request imageB64 prompt ratio) = Inr (hd (pending @ [completed]))"
    and "getVideosOperation env = map Inr (tl (pending @ [completed])) @ later"
    and "\<forall>operation \<in> set pending. \<not> op_done operation"
    and "op_done completed"
  shows "\<exists>effects outcome.
           generateAnimatedVideo env imageB64 prompt ratio = (effects, Some outcome)
         \<and> status_messages effects
             = map (\<lambda>i. loadingMessages ! (i mod length loadingMessages)) [0..<length pending + 1]
               @ (if truthy (video_uri completed) then [''Fetching generated video...''] else [])
         \<and> timeouts effects = replicate (length pending) 10000
         \<and> polls effects = pending"
proof -
  obtain polling where
    run: "poll_loop (getVideosOperation env) (hd (pending @ [completed])) 0
            = (polling, Some (Inr completed))"
    and st: "status_messages polling
            = map (\<lambda>i. loadingMessages ! ((0 + i) mod 7)) [1..<Suc (length pending)]"
    and ti: "timeouts polling = replicate (length pending) 10000"
    and po: "polls polling = pending"
    using poll_loop_run [OF assms(3,4), of later 0] assms(2) by auto
  have upt: "[0..<Suc (length pending)] = 0 # [Suc 0..<Suc (length pending)]"
    by (simp add: upt_conv_Cons del: upt_Suc)
  show ?thesis
    unfolding generateAnimatedVideo_completed [OF assms(1) run]
    apply (intro exI conjI)
       apply (rule refl)
    using st ti po
      apply (simp_all add: status_messages_append timeouts_append polls_append fetch_video_status
        fetch_video_quiet length_loadingMessages upt del: upt_Suc)
    done
qed

text \<open>The scenario of two polls and a valid locator: two status advances, then the fetching message.\<close>

theorem generateAnimatedVideo_status_sequence_witness:
  "status_messages (fst (generateAnimatedVideo env_two_polls ''iVBORw0KGgo='' ''fox winks'' Portrait_9_16))
     = [''Warming up the animation engine...'', ''Teaching pixels to dance...'',
        ''Composing a visual symphony...'', ''Fetching generated video...'']
   \<and> timeouts (fst (generateAnimatedVideo env_two_polls ''iVBORw0KGgo='' ''fox winks'' Portrait_9_16))
     = [10000, 10000]"
proof -
  have a: "generateVideos env_two_polls (video_request ''iVBORw0KGgo='' ''fox winks'' Portrait_9_16)
      = Inr (hd ([op_pending, op_pending] @ [op_with_video]))"
    by (simp add: env_two_polls_def)
  have b: "getVideosOperation env_two_polls = map Inr (tl ([op_pending, op_pending] @ [op_with_video])) @ []"
    by (simp add: env_two_polls_def)
  have c: "\<forall>operation \<in> set [op_pending, op_pending]. \<not> op_done operation"
    by (simp add: op_pending_def)
  have d: "op_done op_with_video"
    by (simp add: op_with_video_def)
  have e: "truthy (video_uri op_with_video)"
    by (simp add: op_with_video_def video_uri_def at_index_def truthy_def)
  have f: "[0..<length [op_pending, op_pending] + 1] = [0, 1, 2]"
    by (simp add: upt_rec)
  from generateAnimatedVideo_status_sequence [OF a b c d] e f
  show ?thesis by (auto simp: loadingMessages_def)
qed

text \<open>
  C9. When the run completes with a locator and the fetch of the locator (with the key
  appended) answers with a response that is not \<open>ok\<close>, the run fails with an error whose
  message is ``Failed to download video: '' followed by the status text of the response.
\<close>

theorem generateAnimatedVideo_download_failure:
  assumes "generateVideos env (video_request imageB64 prompt ratio) = Inr operation"
    and "snd (poll_loop (getVideosOperation env) operation 0) = Some (Inr completed)"
    and "truthy (video_uri completed)"
    and "fetch env (the (video_uri completed) @ ''&key='' @ API_KEY env) = Inr videoResponse"
    and "\<not> ok videoResponse"
  shows "snd (generateAnimatedVideo env imageB64 prompt ratio)
           = Some (Inl (Error (''Failed to download video: '' @ statusText videoResponse)))"
proof -
  obtain polling where "poll_loop (getVideosOperation env) operation 0 = (polling, Some (Inr completed))"
    using assms(2) by (cases "poll_loop (getVideosOperation env) operation 0") simp
  from generateAnimatedVideo_completed [OF assms(1) this] assms(3-5)
  show ?thesis by (simp add: fetch_video_def Let_def)
qed

theorem generateAnimatedVideo_download_failure_witness:
  "snd (generateAnimatedVideo env_forbidden ''iVBORw0KGgo='' ''fox winks'' Portrait_9_16)
     = Some (Inl (Error ''Failed to download video: Forbidden''))"
proof -
  have a: "generateVideos env_forbidden (video_request ''iVBORw0KGgo='' ''fox winks'' Portrait_9_16)
      = Inr op_pending"
    by (simp add: env_forbidden_def env_two_polls_def)
  have b: "snd (poll_loop (getVideosOperation env_forbidden) op_pending 0) = Some (Inr op_with_video)"
    by (simp add: env_forbidden_def env_two_polls_def poll_loop.simps op_pending_def
        op_with_video_def Let_def)
  have c: "truthy (video_uri op_with_video)"
    by (simp add: op_with_video_def video_uri_def at_index_def truthy_def)
  have d: "fetch env_forbidden (the (video_uri op_with_video) @ ''&key='' @ API_KEY env_forbidden)
      = Inr \<lparr> ok = False, statusText = ''Forbidden'', blob = Inr [] \<rparr>"
    by (simp add: env_forbidden_def fetch_forbidden_def)
  have e: "\<not> ok \<lparr> ok = False, statusText = ''Forbidden'', blob = Inr [] \<rparr>"
    by simp
  from generateAnimatedVideo_download_failure [OF a b c d e] show ?thesis by simp
qed
section \<open>Properties of the controller\<close>

text \<open>
  C10. When no file is selected (the event's file list is missing or empty), the upload
  handler starts no read and leaves the whole state as it was: the error, the logo and
  the video are retained.
\<close>

theorem handleImageUpload_no_file:
  assumes "files = None \<or> files = Some []"
  shows "handleImageUpload_begin files s = (s, None) \<and> handleImageUpload files s = (Inr (), s)"
  using assms by (auto simp: handleImageUpload_begin_def handleImageUpload_def at_index_def)

theorem handleImageUpload_no_file_witness:
  "handleImageUpload_begin (Some []) state_video_ready = (state_video_ready, None)
   \<and> handleImageUpload (Some []) state_video_ready = (Inr (), state_video_ready)"
proof -
  have h: "Some [] = None \<or> Some [] = (Some [] :: File list option)" by simp
  from handleImageUpload_no_file [OF h] show ?thesis by blast
qed

text \<open>
  C7. When the animation is started with no logo (the slot empty) or with an empty prompt,
  the handler waits for no call, so \<open>generateAnimatedVideo\<close> does not run; it sets the
  validation message and changes nothing else: the logo and the video are as before.
\<close>

theorem handleGenerateVideo_guard:
  "(\<not> truthy (logoImageBase64 s) \<longrightarrow>
      handleGenerateVideo_begin s
        = (s\<lparr>error := Some ''Please generate or upload a logo first.''\<rparr>, None)
      \<and> handleGenerateVideo env s
        = Some (Inr (), s\<lparr>error := Some ''Please generate or upload a logo first.''\<rparr>))
   \<and> (truthy (logoImageBase64 s) \<and> animationPrompt s = [] \<longrightarrow>
      handleGenerateVideo_begin s
        = (s\<lparr>error := Some ''Please enter a prompt for the animation.''\<rparr>, None)
      \<and> handleGenerateVideo env s
        = Some (Inr (), s\<lparr>error := Some ''Please enter a prompt for the animation.''\<rparr>))"
  by (simp add: handleGenerateVideo_begin_def handleGenerateVideo_def)

theorem handleGenerateVideo_guard_witness:
  "handleGenerateVideo_begin (state_video_ready\<lparr>animationPrompt := []\<rparr>)
     = (state_video_ready\<lparr>animationPrompt := [],
          error := Some ''Please enter a prompt for the animation.''\<rparr>, None)
   \<and> handleGenerateVideo_begin initial_state
     = (initial_state\<lparr>error := Some ''Please generate or upload a logo first.''\<rparr>, None)"
proof -
  have a: "truthy (logoImageBase64 (state_video_ready\<lparr>animationPrompt := []\<rparr>))
           \<and> animationPrompt (state_video_ready\<lparr>animationPrompt := []\<rparr>) = []"
    by (simp add: state_video_ready_def state_logo_ready_def truthy_def)
  have b: "\<not> truthy (logoImageBase64 initial_state)"
    by (simp add: initial_state_def truthy_def)
  from a b handleGenerateVideo_guard [of "state_video_ready\<lparr>animationPrompt := []\<rparr>"]
    handleGenerateVideo_guard [of initial_state]
  show ?thesis by blast
qed

lemma handleImageUpload_resume_failure:
  "handleImageUpload_resume (Inl err) s = (Inr (), s\<lparr>error := Some ''Failed to read image file.''\<rparr>)"
  by (simp add: handleImageUpload_resume_def try_catch_finally_def await_then_def)

text \<open>
  C4, as the code has it. Take an upload whose read fails. When the file is chosen the
  handler clears the error and the video and changes nothing else, so a video present
  before the attempt is not retained. When the read then fails, the failure is caught and
  the handler sets the error text ``Failed to read image file.'' and changes nothing
  else, in whatever state the component is by then; the logo is changed by neither part.
  When nothing else is handled between the choice and the failed read, the result is the
  state before the attempt with the error text set and the video absent.
\<close>

theorem handleImageUpload_read_failure:
  assumes "readAsDataURL file = Inl err"
  shows "handleImageUpload_begin (Some (file # files)) s
           = (s\<lparr>error := None, generatedVideoUrl := None\<rparr>, Some file)
         \<and> handleImageUpload_resume (fileToBase64 file) s'
           = (Inr (), s'\<lparr>error := Some ''Failed to read image file.''\<rparr>)
         \<and> handleImageUpload (Some (file # files)) s
           = (Inr (), s\<lparr>error := Some ''Failed to read image file.'', generatedVideoUrl := None\<rparr>)
         \<and> (apiKeySelected (app sys) \<longrightarrow>
              step (ChooseFile (Some (file # files))) sys
                = Some (sys\<lparr>app := (app sys)\<lparr>error := None, generatedVideoUrl := None\<rparr>,
                          reads := reads sys @ [file]\<rparr>))
         \<and> (i < length (reads sys') \<and> reads sys' ! i = file \<longrightarrow>
              step (FileRead i) sys'
                = Some (sys'\<lparr>app := (app sys')\<lparr>error := Some ''Failed to read image file.''\<rparr>,
                           reads := remove_at i (reads sys')\<rparr>))"
proof -
  have failed: "fileToBase64 file = Inl err"
    using assms by (simp add: fileToBase64_def)
  have start: "handleImageUpload_begin (Some (file # files)) s
           = (s\<lparr>error := None, generatedVideoUrl := None\<rparr>, Some file)" for s
    by (simp add: handleImageUpload_begin_def at_index_def)
  have finish: "handleImageUpload_resume (fileToBase64 file) s
           = (Inr (), s\<lparr>error := Some ''Failed to read image file.''\<rparr>)" for s
    by (simp add: failed handleImageUpload_resume_failure)
  have whole: "handleImageUpload (Some (file # files)) s
           = (Inr (), s\<lparr>error := Some ''Failed to read image file.'', generatedVideoUrl := None\<rparr>)"
    by (simp add: handleImageUpload_def start finish)
  have chosen: "step (ChooseFile (Some (file # files))) sys
                = Some (sys\<lparr>app := (app sys)\<lparr>error := None, generatedVideoUrl := None\<rparr>,
                          reads := reads sys @ [file]\<rparr>)"
    if "apiKeySelected (app sys)"
    using that by (simp add: step_def start)
  have settled: "step (FileRead i) sys'
                = Some (sys'\<lparr>app := (app sys')\<lparr>error := Some ''Failed to read image file.''\<rparr>,
                           reads := remove_at i (reads sys')\<rparr>)"
    if "i < length (reads sys') \<and> reads sys' ! i = file"
    using that by (simp add: step_def finish)
  from start finish whole chosen settled show ?thesis by blast
qed

theorem handleImageUpload_read_failure_witness:
  "handleImageUpload (Some (unreadable_file # [])) state_logo_ready
     = (Inr (), state_logo_ready\<lparr>error := Some ''Failed to read image file.'',
                                  generatedVideoUrl := None\<rparr>)
   \<and> step (ChooseFile (Some (unreadable_file # []))) both_busy_system
     = Some (both_busy_system\<lparr>app := (app both_busy_system)\<lparr>error := None, generatedVideoUrl := None\<rparr>,
                               reads := reads both_busy_system @ [unreadable_file]\<rparr>)
   \<and> step (FileRead 0) reading_system
     = Some (reading_system\<lparr>app := (app reading_system)\<lparr>error := Some ''Failed to read image file.''\<rparr>,
                             reads := remove_at 0 (reads reading_system)\<rparr>)"
proof -
  have h: "readAsDataURL unreadable_file = Inl NonError"
    by (simp add: unreadable_file_def)
  have a: "apiKeySelected (app both_busy_system)"
    by (simp add: both_busy_system_def)
  have b: "0 < length (reads reading_system) \<and> reads reading_system ! 0 = unreadable_file"
    by (simp add: reading_system_def)
  from handleImageUpload_read_failure
    [OF h, of "[]" state_logo_ready state_logo_ready both_busy_system 0 reading_system] a b
  show ?thesis by blast
qed

text \<open>
  C4 as the claim states it fails: a failed upload in a state that holds a video leaves
  the logo but not the video.
\<close>

theorem handleImageUpload_read_failure_clears_video:
  "readAsDataURL unreadable_file = Inl NonError
   \<and> generatedVideoUrl state_video_ready = Some ''blob:video-1''
   \<and> generatedVideoUrl (snd (handleImageUpload (Some [unreadable_file]) state_video_ready)) = None"
  by (simp add: handleImageUpload_def handleImageUpload_begin_def at_index_def fileToBase64_def
        handleImageUpload_resume_def try_catch_finally_def await_then_def
        unreadable_file_def state_video_ready_def state_logo_ready_def)

lemma gav_two_polls:
  "generateAnimatedVideo env_two_polls imageB64 prompt ratio
     = ([StatusUpdate ''Warming up the animation engine...'',
         GenerateVideos (video_request imageB64 prompt ratio),
         Timeout 10000, StatusUpdate ''Teaching pixels to dance...'', GetVideosOperation op_pending,
         Timeout 10000, StatusUpdate ''Composing a visual symphony...'', GetVideosOperation op_pending,
         StatusUpdate ''Fetching generated video...'',
         Fetch ''https://example.test/files/abc:download?alt=media&key=KEY''],
        Some (Inr ''blob:video-2''))"
  by (simp add: generateAnimatedVideo_def env_two_polls_def Let_def poll_loop.simps
      op_pending_def op_with_video_def loadingMessages_def fetch_video_def video_uri_def
      at_index_def truthy_def fetch_ok_def)


lemma gav_quota_any:
  "generateAnimatedVideo env_quota imageB64 prompt ratio
     = ([StatusUpdate ''Warming up the animation engine...'',
         GenerateVideos (video_request imageB64 prompt ratio)],
        Some (Inl (Error ''Quota exceeded.'')))"
  by (simp add: generateAnimatedVideo_def env_quota_def env_two_polls_def Let_def
      loadingMessages_def)

text \<open>
  A video run that settles between the choice of the file and the failed read leaves its
  video in place: the failed read sets the error text only.
\<close>

lemma late_video_run: "run late_video_trace initial_system = Some late_video_system"
  by (simp add: late_video_trace_def late_video_system_def initial_system_def initial_state_def
      step_def handleImageUpload_begin_def handleImageUpload_resume_def
      handleGenerateVideo_begin_def handleGenerateVideo_resume_def fileToBase64_def
      try_catch_finally_def await_then_def at_index_def remove_at_def truthy_def png_file_def
      unreadable_file_def loadingMessages_def gav_two_polls)

lemma setVideoStatus_all_only_status: "\<exists>v. setVideoStatus_all effects s = s\<lparr>videoStatus := v\<rparr>"
proof (induction effects s rule: setVideoStatus_all.induct)
  case (1 s)
  have "s = s\<lparr>videoStatus := videoStatus s\<rparr>" by simp
  then show ?case by (metis setVideoStatus_all.simps(1))
qed auto

lemma handleGenerateVideo_resume_failure:
  "handleGenerateVideo_resume (Inl err) s =
     (Inr (),
      if str_includes (errorMessage_of err ''An unknown error occurred during video generation.'')
           ''Requested entity was not found''
      then s\<lparr>error := Some ''API Key not found or invalid. Please re-select your API Key.'',
             apiKeySelected := False, isGeneratingVideo := False, videoStatus := []\<rparr>
      else s\<lparr>error := Some (''Video generation failed: ''
                 @ errorMessage_of err ''An unknown error occurred during video generation.''),
             isGeneratingVideo := False, videoStatus := []\<rparr>)"
  by (simp add: handleGenerateVideo_resume_def try_catch_finally_def await_then_def Let_def)

lemma handleGenerateVideo_started:
  assumes "truthy (logoImageBase64 s)" and "animationPrompt s \<noteq> []"
    and "generateAnimatedVideo env (the (logoImageBase64 s)) (animationPrompt s) (aspectRatio s)
           = (effects, Some outcome)"
  shows "\<exists>v. handleGenerateVideo env s
           = Some (handleGenerateVideo_resume outcome
               (s\<lparr>error := None, isGeneratingVideo := True, generatedVideoUrl := None,
                  videoStatus := v\<rparr>))"
proof -
  obtain v where "setVideoStatus_all effects
        (s\<lparr>error := None, isGeneratingVideo := True, generatedVideoUrl := None\<rparr>)
      = s\<lparr>error := None, isGeneratingVideo := True, generatedVideoUrl := None, videoStatus := v\<rparr>"
    using setVideoStatus_all_only_status by blast
  with assms have "handleGenerateVideo env s
           = Some (handleGenerateVideo_resume outcome
               (s\<lparr>error := None, isGeneratingVideo := True, generatedVideoUrl := None,
                  videoStatus := v\<rparr>))"
    by (simp add: handleGenerateVideo_def handleGenerateVideo_begin_def)
  then show ?thesis by blast
qed

lemma handleGenerateVideo_failure:
  assumes "truthy (logoImageBase64 s)" and "animationPrompt s \<noteq> []"
    and "generateAnimatedVideo env (the (logoImageBase64 s)) (animationPrompt s) (aspectRatio s)
           = (effects, Some (Inl err))"
  shows "handleGenerateVideo env s =
     Some (Inr (),
      if str_includes (errorMessage_of err ''An unknown error occurred during video generation.'')
           ''Requested entity was not found''
      then s\<lparr>error := Some ''API Key not found or invalid. Please re-select your API Key.'',
             apiKeySelected := False, generatedVideoUrl := None, isGeneratingVideo := False,
             videoStatus := []\<rparr>
      else s\<lparr>error := Some (''Video generation failed: ''
                 @ errorMessage_of err ''An unknown error occurred during video generation.''),
             generatedVideoUrl := None, isGeneratingVideo := False, videoStatus := []\<rparr>)"
proof -
  obtain v where "handleGenerateVideo env s
           = Some (handleGenerateVideo_resume (Inl err)
               (s\<lparr>error := None, isGeneratingVideo := True, generatedVideoUrl := None,
                  videoStatus := v\<rparr>))"
    using handleGenerateVideo_started [OF assms] by blast
  then show ?thesis
    by (simp add: handleGenerateVideo_resume_failure)
qed

lemma handleGenerateLogo_resume_caught:
  "fst (handleGenerateLogo_resume outcome s) = Inr ()
   \<and> \<not> isGeneratingLogo (snd (handleGenerateLogo_resume outcome s))"
  by (cases outcome)
    (simp_all add: handleGenerateLogo_resume_def try_catch_finally_def await_then_def Let_def)

lemma handleGenerateVideo_resume_caught:
  "fst (handleGenerateVideo_resume outcome s) = Inr ()
   \<and> \<not> isGeneratingVideo (snd (handleGenerateVideo_resume outcome s))"
  by (cases outcome)
    (simp_all add: handleGenerateVideo_resume_def try_catch_finally_def await_then_def Let_def)

lemma handleGenerateLogo_failure:
  assumes "logoDescription s \<noteq> []"
    and "generateLogoImage generateImages (logoDescription s) = Inl err"
  shows "handleGenerateLogo generateImages s =
     (Inr (), s\<lparr>error := Some (''Logo generation failed: ''
                  @ errorMessage_of err ''An unknown error occurred.''),
               isGeneratingLogo := False, logoImageBase64 := None, generatedVideoUrl := None\<rparr>)"
  using assms
  by (simp add: handleGenerateLogo_def handleGenerateLogo_begin_def handleGenerateLogo_resume_def
      try_catch_finally_def await_then_def Let_def)

lemma state_video_ready_guards:
  "truthy (logoImageBase64 state_video_ready) \<and> animationPrompt state_video_ready \<noteq> []"
  by (simp add: state_video_ready_def state_logo_ready_def truthy_def)

lemma gav_key_rejected:
  "generateAnimatedVideo env_key_rejected (the (logoImageBase64 state_video_ready))
       (animationPrompt state_video_ready) (aspectRatio state_video_ready)
     = ([StatusUpdate ''Warming up the animation engine...'',
         GenerateVideos (video_request ''iVBORw0KGgo='' ''fox winks'' Portrait_9_16)],
        Some (Inl (Error ''Requested entity was not found.'')))"
  by (simp add: generateAnimatedVideo_def env_key_rejected_def env_two_polls_def Let_def
      state_video_ready_def state_logo_ready_def loadingMessages_def)

lemma gav_quota:
  "generateAnimatedVideo env_quota (the (logoImageBase64 state_video_ready))
       (animationPrompt state_video_ready) (aspectRatio state_video_ready)
     = ([StatusUpdate ''Warming up the animation engine...'',
         GenerateVideos (video_request ''iVBORw0KGgo='' ''fox winks'' Portrait_9_16)],
        Some (Inl (Error ''Quota exceeded.'')))"
  by (simp add: generateAnimatedVideo_def env_quota_def env_two_polls_def Let_def
      state_video_ready_def state_logo_ready_def loadingMessages_def)

text \<open>
  Take a run started from a state that passes the guards of \<open>handleGenerateVideo\<close> and
  in which the operation completes. If the completed operation carries no locator (no
  \<open>uri\<close> at the end of the chain, or an empty one), the run fails with the error ``Video
  generation operation completed but no video URI was found.'' and fetches nothing; the
  handler then ends with the video absent, the error text set, and, no logo generation
  being under way, in stage \<open>LogoReady\<close>. If it carries a locator, exactly that locator
  (with the key appended) is fetched. The run yields a video URL only when the locator is
  present.
\<close>

lemma generateAnimatedVideo_no_locator:
  assumes "generateVideos env (video_request (the (logoImageBase64 s)) (animationPrompt s) (aspectRatio s))
             = Inr operation"
    and "snd (poll_loop (getVideosOperation env) operation 0) = Some (Inr completed)"
    and "truthy (logoImageBase64 s)" and "animationPrompt s \<noteq> []" and "\<not> isGeneratingLogo s"
  shows "(\<not> truthy (video_uri completed) \<longrightarrow>
            snd (generateAnimatedVideo env (the (logoImageBase64 s)) (animationPrompt s) (aspectRatio s))
              = Some (Inl (Error ''Video generation operation completed but no video URI was found.''))
          \<and> fetches (fst (generateAnimatedVideo env (the (logoImageBase64 s)) (animationPrompt s)
                (aspectRatio s))) = []
          \<and> (\<exists>s'. handleGenerateVideo env s = Some (Inr (), s')
                \<and> stage s' = LogoReady \<and> generatedVideoUrl s' = None
                \<and> error s' = Some (''Video generation failed: ''
                      @ ''Video generation operation completed but no video URI was found.'')))
       \<and> (truthy (video_uri completed) \<longrightarrow>
            fetches (fst (generateAnimatedVideo env (the (logoImageBase64 s)) (animationPrompt s)
                (aspectRatio s)))
              = [the (video_uri completed) @ ''&key='' @ API_KEY env])
       \<and> (\<forall>url. snd (generateAnimatedVideo env (the (logoImageBase64 s)) (animationPrompt s)
                (aspectRatio s)) = Some (Inr url)
              \<longrightarrow> truthy (video_uri completed))"
proof -
  let ?run = "generateAnimatedVideo env (the (logoImageBase64 s)) (animationPrompt s) (aspectRatio s)"
  obtain polling where
    poll: "poll_loop (getVideosOperation env) operation 0 = (polling, Some (Inr completed))"
    using assms(2) by (cases "poll_loop (getVideosOperation env) operation 0") simp
  have run: "?run = ([StatusUpdate (loadingMessages ! 0),
                      GenerateVideos (video_request (the (logoImageBase64 s)) (animationPrompt s)
                        (aspectRatio s))]
                @ polling @ fst (fetch_video env completed),
              Some (snd (fetch_video env completed)))"
    by (rule generateAnimatedVideo_completed [OF assms(1) poll])
  have quiet: "fetches polling = []"
    using poll_loop_no_fetch [of "getVideosOperation env" operation 0] poll by simp
  have absent: "snd ?run
        = Some (Inl (Error ''Video generation operation completed but no video URI was found.''))
      \<and> fetches (fst ?run) = []
      \<and> (\<exists>s'. handleGenerateVideo env s = Some (Inr (), s')
            \<and> stage s' = LogoReady \<and> generatedVideoUrl s' = None
            \<and> error s' = Some (''Video generation failed: ''
                  @ ''Video generation operation completed but no video URI was found.''))"
    if no: "\<not> truthy (video_uri completed)"
  proof -
    have out: "?run = ([StatusUpdate (loadingMessages ! 0),
                      GenerateVideos (video_request (the (logoImageBase64 s)) (animationPrompt s)
                        (aspectRatio s))] @ polling,
        Some (Inl (Error ''Video generation operation completed but no video URI was found.'')))"
      using run no by (simp add: fetch_video_no_uri)
    have "handleGenerateVideo env s =
       Some (Inr (),
         s\<lparr>error := Some (''Video generation failed: ''
                 @ ''Video generation operation completed but no video URI was found.''),
           generatedVideoUrl := None, isGeneratingVideo := False, videoStatus := []\<rparr>)"
      using handleGenerateVideo_failure [OF assms(3,4) out]
      by (simp add: errorMessage_of_def)
    then have "\<exists>s'. handleGenerateVideo env s = Some (Inr (), s')
            \<and> stage s' = LogoReady \<and> generatedVideoUrl s' = None
            \<and> error s' = Some (''Video generation failed: ''
                  @ ''Video generation operation completed but no video URI was found.'')"
      using assms(3,5) by (simp add: stage_def truthy_def)
    with out quiet show ?thesis
      by (simp add: fetches_append)
  qed
  have present: "fetches (fst ?run) = [the (video_uri completed) @ ''&key='' @ API_KEY env]"
    if "truthy (video_uri completed)"
    using run quiet that by (simp add: fetches_append fetch_video_effects)
  have only: "truthy (video_uri completed)" if "snd ?run = Some (Inr url)" for url
  proof (rule ccontr)
    assume "\<not> truthy (video_uri completed)"
    from absent [OF this] that show False by simp
  qed
  from absent present only show ?thesis by blast
qed

lemma generateAnimatedVideo_no_locator_example:
  "snd (generateAnimatedVideo env_no_locator ''iVBORw0KGgo='' ''fox winks'' Portrait_9_16)
     = Some (Inl (Error ''Video generation operation completed but no video URI was found.''))
   \<and> fetches (fst (generateAnimatedVideo env_no_locator ''iVBORw0KGgo='' ''fox winks'' Portrait_9_16))
     = []
   \<and> fetches (fst (generateAnimatedVideo env_two_polls ''iVBORw0KGgo='' ''fox winks'' Portrait_9_16))
     = [''https://example.test/files/abc:download?alt=media&key=KEY'']"
proof -
  have s: "the (logoImageBase64 state_logo_ready) = ''iVBORw0KGgo=''"
    "animationPrompt state_logo_ready = ''fox winks''" "aspectRatio state_logo_ready = Portrait_9_16"
    by (simp_all add: state_logo_ready_def)
  have a: "generateVideos env_no_locator
      (video_request (the (logoImageBase64 state_logo_ready)) (animationPrompt state_logo_ready)
         (aspectRatio state_logo_ready)) = Inr op_pending"
    by (simp add: env_no_locator_def env_two_polls_def)
  have b: "snd (poll_loop (getVideosOperation env_no_locator) op_pending 0) = Some (Inr op_without_video)"
    by (simp add: env_no_locator_def env_two_polls_def poll_loop.simps op_pending_def
        op_without_video_def Let_def)
  have a': "generateVideos env_two_polls
      (video_request (the (logoImageBase64 state_logo_ready)) (animationPrompt state_logo_ready)
         (aspectRatio state_logo_ready)) = Inr op_pending"
    by (simp add: env_two_polls_def)
  have b': "snd (poll_loop (getVideosOperation env_two_polls) op_pending 0) = Some (Inr op_with_video)"
    by (simp add: env_two_polls_def poll_loop.simps op_pending_def op_with_video_def Let_def)
  have c: "truthy (logoImageBase64 state_logo_ready)" and d: "animationPrompt state_logo_ready \<noteq> []"
    and e: "\<not> isGeneratingLogo state_logo_ready"
    by (simp_all add: state_logo_ready_def truthy_def)
  have f: "\<not> truthy (video_uri op_without_video)"
    by (simp add: op_without_video_def video_uri_def truthy_def)
  have g: "truthy (video_uri op_with_video)"
    and h: "the (video_uri op_with_video) @ ''&key='' @ API_KEY env_two_polls
      = ''https://example.test/files/abc:download?alt=media&key=KEY''"
    by (simp_all add: op_with_video_def video_uri_def at_index_def truthy_def env_two_polls_def)
  from generateAnimatedVideo_no_locator [OF a b c d e] generateAnimatedVideo_no_locator [OF a' b' c d e]
    f g h s
  show ?thesis by simp
qed

text \<open>
  C2, as the code has it. Take a run of \<open>handleGenerateVideo\<close> that passes the guards and
  whose video generation fails. If the message of the failure contains ``Requested entity
  was not found'', the handler sets the credential gate to absent and sets an error text
  that tells the user to re-select the key; otherwise it sets the error text ``Video
  generation failed: '' followed by the message and leaves the credential gate as it was.
  In both cases the video is absent afterwards (the handler cleared it when the run
  started, so a previous video is not kept), the busy flag and the status text are
  cleared, and nothing else changes.
\<close>

theorem handleGenerateVideo_credential_error:
  assumes "truthy (logoImageBase64 s)" and "animationPrompt s \<noteq> []"
    and "generateAnimatedVideo env (the (logoImageBase64 s)) (animationPrompt s) (aspectRatio s)
           = (effects, Some (Inl err))"
  shows "(str_includes (errorMessage_of err ''An unknown error occurred during video generation.'')
            ''Requested entity was not found'' \<longrightarrow>
          handleGenerateVideo env s
            = Some (Inr (),
                s\<lparr>error := Some ''API Key not found or invalid. Please re-select your API Key.'',
                  apiKeySelected := False, generatedVideoUrl := None, isGeneratingVideo := False,
                  videoStatus := []\<rparr>))
       \<and> (\<not> str_includes (errorMessage_of err ''An unknown error occurred during video generation.'')
            ''Requested entity was not found'' \<longrightarrow>
          handleGenerateVideo env s
            = Some (Inr (),
                s\<lparr>error := Some (''Video generation failed: ''
                     @ errorMessage_of err ''An unknown error occurred during video generation.''),
                  generatedVideoUrl := None, isGeneratingVideo := False, videoStatus := []\<rparr>))
       \<and> str_includes ''API Key not found or invalid. Please re-select your API Key.''
            ''re-select your API Key''"
  using handleGenerateVideo_failure [OF assms] by simp

theorem handleGenerateVideo_credential_error_witness:
  "handleGenerateVideo env_key_rejected state_video_ready
     = Some (Inr (),
         state_video_ready
           \<lparr>error := Some ''API Key not found or invalid. Please re-select your API Key.'',
            apiKeySelected := False, generatedVideoUrl := None, isGeneratingVideo := False,
            videoStatus := []\<rparr>)
   \<and> handleGenerateVideo env_quota state_video_ready
     = Some (Inr (),
         state_video_ready
           \<lparr>error := Some ''Video generation failed: Quota exceeded.'',
            generatedVideoUrl := None, isGeneratingVideo := False, videoStatus := []\<rparr>)"
proof -
  have a: "truthy (logoImageBase64 state_video_ready)" and b: "animationPrompt state_video_ready \<noteq> []"
    using state_video_ready_guards by simp_all
  have c: "str_includes (errorMessage_of (Error ''Requested entity was not found.'')
              ''An unknown error occurred during video generation.'')
            ''Requested entity was not found''"
    by (simp add: errorMessage_of_def)
  have d: "\<not> str_includes (errorMessage_of (Error ''Quota exceeded.'')
              ''An unknown error occurred during video generation.'')
            ''Requested entity was not found''"
    by (simp add: errorMessage_of_def)
  have e: "errorMessage_of (Error ''Quota exceeded.'')
              ''An unknown error occurred during video generation.'' = ''Quota exceeded.''"
    by (simp add: errorMessage_of_def)
  from handleGenerateVideo_credential_error [OF a b gav_key_rejected]
    handleGenerateVideo_credential_error [OF a b gav_quota] c d e
  show ?thesis by simp
qed

text \<open>
  C2 as the claim states it fails: a run started in a state that holds a video and
  rejected for its credential ends with the gate absent and with no video, not with the
  previous one.
\<close>

theorem handleGenerateVideo_credential_error_clears_video:
  "generatedVideoUrl state_video_ready = Some ''blob:video-1''
   \<and> handleGenerateVideo env_key_rejected state_video_ready
     = Some (Inr (),
         state_logo_ready
           \<lparr>error := Some ''API Key not found or invalid. Please re-select your API Key.'',
            apiKeySelected := False\<rparr>)
   \<and> generatedVideoUrl
        (state_logo_ready
           \<lparr>error := Some ''API Key not found or invalid. Please re-select your API Key.'',
            apiKeySelected := False\<rparr>) = None"
  by (simp add: handleGenerateVideo_def handleGenerateVideo_begin_def gav_key_rejected
      state_video_ready_guards handleGenerateVideo_resume_failure errorMessage_of_def)
    (simp add: state_video_ready_def state_logo_ready_def)

lemma handleGenerateLogo_resume_failure:
  "handleGenerateLogo_resume (Inl err) s =
     (Inr (), s\<lparr>error := Some (''Logo generation failed: ''
                  @ errorMessage_of err ''An unknown error occurred.''),
               isGeneratingLogo := False\<rparr>)"
  by (simp add: handleGenerateLogo_resume_def try_catch_finally_def await_then_def Let_def)

lemma handleGenerateVideo_resume_failure_frame:
  "error (snd (handleGenerateVideo_resume (Inl err) s)) \<noteq> None
   \<and> \<not> isGeneratingVideo (snd (handleGenerateVideo_resume (Inl err) s))
   \<and> logoImageBase64 (snd (handleGenerateVideo_resume (Inl err) s)) = logoImageBase64 s
   \<and> generatedVideoUrl (snd (handleGenerateVideo_resume (Inl err) s)) = generatedVideoUrl s
   \<and> isGeneratingLogo (snd (handleGenerateVideo_resume (Inl err) s)) = isGeneratingLogo s"
  by (simp add: handleGenerateVideo_resume_failure)

lemma setVideoStatus_all_slots:
  "logoImageBase64 (setVideoStatus_all effects s) = logoImageBase64 s
   \<and> generatedVideoUrl (setVideoStatus_all effects s) = generatedVideoUrl s
   \<and> isGeneratingLogo (setVideoStatus_all effects s) = isGeneratingLogo s"
proof -
  obtain v where "setVideoStatus_all effects s = s\<lparr>videoStatus := v\<rparr>"
    using setVideoStatus_all_only_status by blast
  then show ?thesis by simp
qed

lemma step_LogoSettled_failure:
  assumes "i < length (logo_calls sys)"
    and "generateLogoImage generateImages (logo_calls sys ! i) = Inl err"
  shows "step (LogoSettled i generateImages) sys
     = Some (sys\<lparr>app := (app sys)\<lparr>error := Some (''Logo generation failed: ''
                              @ errorMessage_of err ''An unknown error occurred.''),
                            isGeneratingLogo := False\<rparr>,
               logo_calls := remove_at i (logo_calls sys)\<rparr>)"
  using assms by (simp add: step_def handleGenerateLogo_resume_failure)

lemma step_VideoSettled_failure:
  assumes "j < length (video_calls sys)"
    and "video_calls sys ! j = (imageB64, prompt, ratio)"
    and "generateAnimatedVideo env imageB64 prompt ratio = (effects, Some (Inl err))"
  shows "\<exists>sys'. step (VideoSettled j env) sys = Some sys'
     \<and> \<not> isGeneratingVideo (app sys') \<and> error (app sys') \<noteq> None
     \<and> logoImageBase64 (app sys') = logoImageBase64 (app sys)
     \<and> generatedVideoUrl (app sys') = generatedVideoUrl (app sys)
     \<and> isGeneratingLogo (app sys') = isGeneratingLogo (app sys)
     \<and> video_calls sys' = remove_at j (video_calls sys)"
proof -
  let ?s = "setVideoStatus_all (tl effects) (app sys)"
  let ?sys' = "sys\<lparr>app := snd (handleGenerateVideo_resume (Inl err) ?s),
                    video_calls := remove_at j (video_calls sys)\<rparr>"
  have "step (VideoSettled j env) sys = Some ?sys'"
    using assms by (simp add: step_def)
  moreover have "\<not> isGeneratingVideo (app ?sys')" "error (app ?sys') \<noteq> None"
    "logoImageBase64 (app ?sys') = logoImageBase64 (app sys)"
    "generatedVideoUrl (app ?sys') = generatedVideoUrl (app sys)"
    "isGeneratingLogo (app ?sys') = isGeneratingLogo (app sys)"
    "video_calls ?sys' = remove_at j (video_calls sys)"
    using handleGenerateVideo_resume_failure_frame [of err ?s]
      setVideoStatus_all_slots [of "tl effects" "app sys"]
    by simp_all
  ultimately show ?thesis by blast
qed

text \<open>
  C3, as the code has it. When a logo generation or a video generation in flight fails,
  in whatever state the component is by then, the failure is caught in the handler and
  does not leave it, the busy flag of that call is cleared and an error text is set; the
  failure changes neither the logo nor the video nor the other busy flag. So the stage
  held before the action is not restored: what the handler cleared when the action
  started (logo and video for the logo generation, the video for the animation) stays
  cleared. When nothing else is handled between the start and the failure, a failed logo
  generation ends with logo and video absent, in stage \<open>NoLogo\<close> when no video run is under
  way, whatever the stage was before the button was pressed; a failed video generation
  ends with the logo kept and the video absent, in stage \<open>LogoReady\<close> when no logo
  generation is under way.
\<close>

theorem remote_failures_caught:
  "fst (handleGenerateLogo_resume outcome1 s1) = Inr ()
   \<and> \<not> isGeneratingLogo (snd (handleGenerateLogo_resume outcome1 s1))
   \<and> fst (handleGenerateVideo_resume outcome2 s2) = Inr ()
   \<and> \<not> isGeneratingVideo (snd (handleGenerateVideo_resume outcome2 s2))
   \<and> (i < length (logo_calls sys)
        \<and> generateLogoImage generateImages' (logo_calls sys ! i) = Inl err1 \<longrightarrow>
        step (LogoSettled i generateImages') sys
          = Some (sys\<lparr>app := (app sys)\<lparr>error := Some (''Logo generation failed: ''
                                   @ errorMessage_of err1 ''An unknown error occurred.''),
                                 isGeneratingLogo := False\<rparr>,
                    logo_calls := remove_at i (logo_calls sys)\<rparr>))
   \<and> (j < length (video_calls sys) \<and> video_calls sys ! j = (imageB64, prompt, ratio)
        \<and> generateAnimatedVideo env' imageB64 prompt ratio = (effects', Some (Inl err2)) \<longrightarrow>
        (\<exists>sys'. step (VideoSettled j env') sys = Some sys'
           \<and> \<not> isGeneratingVideo (app sys') \<and> error (app sys') \<noteq> None
           \<and> logoImageBase64 (app sys') = logoImageBase64 (app sys)
           \<and> generatedVideoUrl (app sys') = generatedVideoUrl (app sys)
           \<and> isGeneratingLogo (app sys') = isGeneratingLogo (app sys)
           \<and> video_calls sys' = remove_at j (video_calls sys)))
   \<and> (logoDescription s \<noteq> [] \<and> generateLogoImage generateImages (logoDescription s) = Inl err \<longrightarrow>
        handleGenerateLogo generateImages s
          = (Inr (), s\<lparr>error := Some (''Logo generation failed: ''
                          @ errorMessage_of err ''An unknown error occurred.''),
                       isGeneratingLogo := False, logoImageBase64 := None,
                       generatedVideoUrl := None\<rparr>)
        \<and> (\<not> isGeneratingVideo s \<longrightarrow> stage (snd (handleGenerateLogo generateImages s)) = NoLogo))
   \<and> (truthy (logoImageBase64 s) \<and> animationPrompt s \<noteq> []
        \<and> generateAnimatedVideo env (the (logoImageBase64 s)) (animationPrompt s) (aspectRatio s)
            = (effects, Some (Inl err')) \<longrightarrow>
        (\<exists>s'. handleGenerateVideo env s = Some (Inr (), s')
           \<and> \<not> isGeneratingVideo s' \<and> error s' \<noteq> None \<and> generatedVideoUrl s' = None
           \<and> logoImageBase64 s' = logoImageBase64 s
           \<and> (\<not> isGeneratingLogo s \<longrightarrow> stage s' = LogoReady)))"
proof (intro conjI impI)
  assume "i < length (logo_calls sys)
        \<and> generateLogoImage generateImages' (logo_calls sys ! i) = Inl err1"
  then show "step (LogoSettled i generateImages') sys
          = Some (sys\<lparr>app := (app sys)\<lparr>error := Some (''Logo generation failed: ''
                                   @ errorMessage_of err1 ''An unknown error occurred.''),
                                 isGeneratingLogo := False\<rparr>,
                    logo_calls := remove_at i (logo_calls sys)\<rparr>)"
    by (simp add: step_LogoSettled_failure)
next
  assume "j < length (video_calls sys) \<and> video_calls sys ! j = (imageB64, prompt, ratio)
        \<and> generateAnimatedVideo env' imageB64 prompt ratio = (effects', Some (Inl err2))"
  then show "\<exists>sys'. step (VideoSettled j env') sys = Some sys'
           \<and> \<not> isGeneratingVideo (app sys') \<and> error (app sys') \<noteq> None
           \<and> logoImageBase64 (app sys') = logoImageBase64 (app sys)
           \<and> generatedVideoUrl (app sys') = generatedVideoUrl (app sys)
           \<and> isGeneratingLogo (app sys') = isGeneratingLogo (app sys)
           \<and> video_calls sys' = remove_at j (video_calls sys)"
    using step_VideoSettled_failure by blast
next
  assume a: "logoDescription s \<noteq> [] \<and> generateLogoImage generateImages (logoDescription s) = Inl err"
  then show "handleGenerateLogo generateImages s
          = (Inr (), s\<lparr>error := Some (''Logo generation failed: ''
                          @ errorMessage_of err ''An unknown error occurred.''),
                       isGeneratingLogo := False, logoImageBase64 := None,
                       generatedVideoUrl := None\<rparr>)"
    by (simp add: handleGenerateLogo_failure)
  assume "\<not> isGeneratingVideo s"
  with a show "stage (snd (handleGenerateLogo generateImages s)) = NoLogo"
    by (simp add: handleGenerateLogo_failure stage_def truthy_def)
next
  assume a: "truthy (logoImageBase64 s) \<and> animationPrompt s \<noteq> []
        \<and> generateAnimatedVideo env (the (logoImageBase64 s)) (animationPrompt s) (aspectRatio s)
            = (effects, Some (Inl err'))"
  then have "handleGenerateVideo env s =
     Some (Inr (),
      if str_includes (errorMessage_of err' ''An unknown error occurred during video generation.'')
           ''Requested entity was not found''
      then s\<lparr>error := Some ''API Key not found or invalid. Please re-select your API Key.'',
             apiKeySelected := False, generatedVideoUrl := None, isGeneratingVideo := False,
             videoStatus := []\<rparr>
      else s\<lparr>error := Some (''Video generation failed: ''
                 @ errorMessage_of err' ''An unknown error occurred during video generation.''),
             generatedVideoUrl := None, isGeneratingVideo := False, videoStatus := []\<rparr>)"
    using handleGenerateVideo_failure by blast
  with a show "\<exists>s'. handleGenerateVideo env s = Some (Inr (), s')
           \<and> \<not> isGeneratingVideo s' \<and> error s' \<noteq> None \<and> generatedVideoUrl s' = None
           \<and> logoImageBase64 s' = logoImageBase64 s
           \<and> (\<not> isGeneratingLogo s \<longrightarrow> stage s' = LogoReady)"
    by (simp add: stage_def truthy_def)
qed (simp_all add: handleGenerateLogo_resume_caught handleGenerateVideo_resume_caught)

theorem remote_failures_caught_witness:
  "handleGenerateLogo image_unavailable state_video_ready
     = (Inr (), state_video_ready
          \<lparr>error := Some ''Logo generation failed: 503 Service Unavailable'',
           isGeneratingLogo := False, logoImageBase64 := None, generatedVideoUrl := None\<rparr>)
   \<and> stage (snd (handleGenerateLogo image_unavailable state_video_ready)) = NoLogo
   \<and> map_option fst (handleGenerateVideo env_quota state_video_ready) = Some (Inr ())
   \<and> map_option (stage \<circ> snd) (handleGenerateVideo env_quota state_video_ready) = Some LogoReady
   \<and> step (LogoSettled 0 image_unavailable) both_busy_system
     = Some (both_busy_system
          \<lparr>app := (app both_busy_system)
             \<lparr>error := Some ''Logo generation failed: 503 Service Unavailable'',
              isGeneratingLogo := False\<rparr>,
           logo_calls := remove_at 0 (logo_calls both_busy_system)\<rparr>)
   \<and> map_option (\<lambda>sys'. (isGeneratingVideo (app sys'), logoImageBase64 (app sys'),
          generatedVideoUrl (app sys'), isGeneratingLogo (app sys')))
        (step (VideoSettled 0 env_quota) both_busy_system)
     = Some (False, logoImageBase64 (app both_busy_system),
          generatedVideoUrl (app both_busy_system), isGeneratingLogo (app both_busy_system))"
proof -
  have a: "logoDescription state_video_ready \<noteq> []
      \<and> generateLogoImage image_unavailable (logoDescription state_video_ready)
          = Inl (Error ''503 Service Unavailable'')"
    by (simp add: generateLogoImage_def image_unavailable_def state_video_ready_def
        state_logo_ready_def)
  have b: "\<not> isGeneratingVideo state_video_ready" and c: "\<not> isGeneratingLogo state_video_ready"
    by (simp_all add: state_video_ready_def state_logo_ready_def)
  have d: "''Logo generation failed: ''
        @ errorMessage_of (Error ''503 Service Unavailable'') ''An unknown error occurred.''
      = ''Logo generation failed: 503 Service Unavailable''"
    by (simp add: errorMessage_of_def)
  have e: "0 < length (logo_calls both_busy_system)
      \<and> generateLogoImage image_unavailable (logo_calls both_busy_system ! 0)
          = Inl (Error ''503 Service Unavailable'')"
    by (simp add: generateLogoImage_def image_unavailable_def both_busy_system_def)
  have f: "0 < length (video_calls both_busy_system)
      \<and> video_calls both_busy_system ! 0 = (''iVBORw0KGgo='', ''fox winks'', Landscape_16_9)
      \<and> generateAnimatedVideo env_quota ''iVBORw0KGgo='' ''fox winks'' Landscape_16_9
          = ([StatusUpdate ''Warming up the animation engine...'',
              GenerateVideos (video_request ''iVBORw0KGgo='' ''fox winks'' Landscape_16_9)],
             Some (Inl (Error ''Quota exceeded.'')))"
    by (simp add: both_busy_system_def gav_quota_any)
  note inst = remote_failures_caught [of "Inl NonError" initial_state "Inl NonError" initial_state
      0 both_busy_system image_unavailable "Error ''503 Service Unavailable''"
      0 "''iVBORw0KGgo=''" "''fox winks''" Landscape_16_9 env_quota
      "[StatusUpdate ''Warming up the animation engine...'',
        GenerateVideos (video_request ''iVBORw0KGgo='' ''fox winks'' Landscape_16_9)]"
      "Error ''Quota exceeded.''"
      state_video_ready image_unavailable "Error ''503 Service Unavailable''" env_quota
      "[StatusUpdate ''Warming up the animation engine...'',
        GenerateVideos (video_request ''iVBORw0KGgo='' ''fox winks'' Portrait_9_16)]"
      "Error ''Quota exceeded.''"]
  from inst [unfolded d] a b
  have logo: "handleGenerateLogo image_unavailable state_video_ready
     = (Inr (), state_video_ready
          \<lparr>error := Some ''Logo generation failed: 503 Service Unavailable'',
           isGeneratingLogo := False, logoImageBase64 := None, generatedVideoUrl := None\<rparr>)
   \<and> stage (snd (handleGenerateLogo image_unavailable state_video_ready)) = NoLogo"
    by blast
  from inst state_video_ready_guards gav_quota c
  have video: "\<exists>s'. handleGenerateVideo env_quota state_video_ready = Some (Inr (), s')
      \<and> stage s' = LogoReady"
    by blast
  from inst [unfolded d] e
  have logo_step: "step (LogoSettled 0 image_unavailable) both_busy_system
     = Some (both_busy_system
          \<lparr>app := (app both_busy_system)
             \<lparr>error := Some ''Logo generation failed: 503 Service Unavailable'',
              isGeneratingLogo := False\<rparr>,
           logo_calls := remove_at 0 (logo_calls both_busy_system)\<rparr>)"
    by blast
  from inst f
  have video_step: "\<exists>sys'. step (VideoSettled 0 env_quota) both_busy_system = Some sys'
      \<and> \<not> isGeneratingVideo (app sys')
      \<and> logoImageBase64 (app sys') = logoImageBase64 (app both_busy_system)
      \<and> generatedVideoUrl (app sys') = generatedVideoUrl (app both_busy_system)
      \<and> isGeneratingLogo (app sys') = isGeneratingLogo (app both_busy_system)"
    by blast
  from logo video logo_step video_step show ?thesis by auto
qed

text \<open>
  C3 as the claim states it fails: a logo generation that fails after being started in
  stage \<open>LogoReady\<close> ends in stage \<open>NoLogo\<close>, not in the stage held before.
\<close>

theorem handleGenerateLogo_failure_loses_logo:
  "stage state_logo_ready = LogoReady
   \<and> generateLogoImage image_unavailable (logoDescription state_logo_ready)
       = Inl (Error ''503 Service Unavailable'')
   \<and> stage (snd (handleGenerateLogo image_unavailable state_logo_ready)) = NoLogo"
  by (simp add: stage_def truthy_def state_logo_ready_def generateLogoImage_def
      image_unavailable_def handleGenerateLogo_def handleGenerateLogo_begin_def
      handleGenerateLogo_resume_def try_catch_finally_def await_then_def Let_def)


lemma both_busy_run: "run both_busy_trace initial_system = Some both_busy_system"
  by (simp add: both_busy_trace_def both_busy_system_def initial_system_def initial_state_def
      step_def handleGenerateLogo_begin_def handleImageUpload_begin_def
      handleImageUpload_resume_def handleGenerateVideo_begin_def fileToBase64_def
      try_catch_finally_def await_then_def at_index_def remove_at_def truthy_def png_file_def
      loadingMessages_def)

text \<open>
  C8 fails on the code. From the initial state the user starts a logo generation, chooses
  a file while it is under way, and, once the file is read, starts the animation: the
  animation button is enabled because a logo is present and no video run is under way.
  The component is then waiting for both calls, with both busy flags set.
\<close>

theorem both_busy_reachable:
  "run both_busy_trace initial_system = Some both_busy_system
   \<and> isGeneratingLogo (app both_busy_system) \<and> isGeneratingVideo (app both_busy_system)"
  by (simp add: both_busy_run) (simp add: both_busy_system_def)

text \<open>
  In every state reached from the initial one by events whose chosen files read as data
  URLs, the logo slot is not null while the video slot holds a video or a video run is in
  flight. The slot may still hold the empty string, the payload of an empty file.
\<close>

lemma str_split_not_Nil: "str_split sep s \<noteq> []"
  by (induction s) (auto split: list.splits)

lemma str_split_two: "sep \<in> set s \<Longrightarrow> Suc 0 < length (str_split sep s)"
proof (induction s)
  case Nil
  then show ?case by simp
next
  case (Cons c cs)
  then show ?case
    using str_split_not_Nil [of sep cs]
    by (cases "str_split sep cs") (auto split: list.splits)
qed

lemma fileToBase64_data_url:
  "data_url_file file \<Longrightarrow> fileToBase64 file = Inr base64 \<Longrightarrow> base64 \<noteq> None"
  by (auto simp: data_url_file_def fileToBase64_def at_index_def str_split_two split: sum.splits)

lemma upload_resume_logo:
  "data_url_file file \<Longrightarrow>
   logoImageBase64 s \<noteq> None \<Longrightarrow>
   logoImageBase64 (snd (handleImageUpload_resume (fileToBase64 file) s)) \<noteq> None"
  using fileToBase64_data_url [of "file"]
  by (cases "fileToBase64 file")
    (auto simp: handleImageUpload_resume_def try_catch_finally_def await_then_def)

lemma upload_resume_frame:
  "generatedVideoUrl (snd (handleImageUpload_resume outcome s)) = generatedVideoUrl s
   \<and> isGeneratingVideo (snd (handleImageUpload_resume outcome s)) = isGeneratingVideo s"
  by (cases outcome)
    (auto simp: handleImageUpload_resume_def try_catch_finally_def await_then_def)

lemma logo_resume_frame:
  "generatedVideoUrl (snd (handleGenerateLogo_resume outcome s)) = generatedVideoUrl s
   \<and> isGeneratingVideo (snd (handleGenerateLogo_resume outcome s)) = isGeneratingVideo s
   \<and> (logoImageBase64 s \<noteq> None \<longrightarrow> logoImageBase64 (snd (handleGenerateLogo_resume outcome s)) \<noteq> None)"
  by (cases outcome)
    (auto simp: handleGenerateLogo_resume_def try_catch_finally_def await_then_def Let_def)

lemma video_resume_frame:
  "logoImageBase64 (snd (handleGenerateVideo_resume outcome s)) = logoImageBase64 s
   \<and> \<not> isGeneratingVideo (snd (handleGenerateVideo_resume outcome s))"
  by (cases outcome)
    (auto simp: handleGenerateVideo_resume_def try_catch_finally_def await_then_def Let_def)



lemma setVideoStatus_all_frame:
  "logoImageBase64 (setVideoStatus_all effects s) = logoImageBase64 s"
  using setVideoStatus_all_only_status [of effects s] by (metis (no_types) App_state.select_convs(5) App_state.surjective App_state.update_convs(9))

lemma step_video_needs_logo:
  assumes "video_needs_logo sys" and "data_url_event e" and "step e sys = Some sys'"
  shows "video_needs_logo sys'"
proof (cases e)
  case (KeyChecked hasKey)
  with assms show ?thesis
    by (auto simp: step_def Let_def video_needs_logo_def split: if_splits)
next
  case (SelectKey outcome)
  with assms show ?thesis
    by (auto simp: step_def Let_def video_needs_logo_def split: sum.splits)
next
  case (TypeLogoDescription str)
  with assms show ?thesis
    by (auto simp: step_def Let_def video_needs_logo_def split: if_splits)
next
  case (TypeAnimationPrompt str)
  with assms show ?thesis
    by (auto simp: step_def Let_def video_needs_logo_def split: if_splits)
next
  case (ChooseAspectRatio ratio)
  with assms show ?thesis
    by (auto simp: step_def Let_def video_needs_logo_def split: if_splits)
next
  case (ChooseFile files)
  with assms show ?thesis
    by (auto simp: step_def Let_def video_needs_logo_def handleImageUpload_begin_def data_url_event_def
        at_index_def list_all_iff
        split: if_splits option.splits)
next
  case ClickGenerateLogo
  with assms show ?thesis
    by (auto simp: step_def Let_def video_needs_logo_def handleGenerateLogo_begin_def split: if_splits)
next
  case ClickGenerateVideo
  with assms show ?thesis
    by (auto simp: step_def Let_def video_needs_logo_def handleGenerateVideo_begin_def truthy_def
        split: if_splits option.splits)
next
  case (FileRead i)
  with assms have i: "i < length (reads sys)"
    and sys': "sys' = sys\<lparr>app := snd (handleImageUpload_resume (fileToBase64 (reads sys ! i)) (app sys)),
                          reads := remove_at i (reads sys)\<rparr>"
    by (auto simp: step_def Let_def split: if_splits)
  from assms(1) i have chosen: "data_url_file (reads sys ! i)"
    by (simp add: video_needs_logo_def list_all_length)
  have rest: "list_all data_url_file (remove_at i (reads sys))"
    using assms(1) by (auto simp: video_needs_logo_def remove_at_def list_all_iff dest: in_set_takeD in_set_dropD)
  show ?thesis
    using assms(1) rest upload_resume_logo [OF chosen] upload_resume_frame
    by (auto simp: video_needs_logo_def sys')
next
  case (LogoSettled i generateImages)
  with assms have sys': "sys' = sys\<lparr>app := snd (handleGenerateLogo_resume
                                        (generateLogoImage generateImages (logo_calls sys ! i)) (app sys)),
                          logo_calls := remove_at i (logo_calls sys)\<rparr>"
    by (auto simp: step_def Let_def split: if_splits)
  show ?thesis
    using assms(1) logo_resume_frame
    by (auto simp: video_needs_logo_def sys')
next
  case (VideoSettled i env)
  with assms obtain imageB64 prompt ratio effects outcome where
    i: "i < length (video_calls sys)"
    and sys': "sys' = sys\<lparr>app := snd (handleGenerateVideo_resume outcome
                                                   (setVideoStatus_all (tl effects) (app sys))),
                                    video_calls := remove_at i (video_calls sys)\<rparr>"
    by (auto simp: step_def Let_def split: if_splits prod.splits option.splits)
  from assms(1) i have "remove_at i (video_calls sys) = []"
    by (cases "video_calls sys") (auto simp: video_needs_logo_def remove_at_def)
  then show ?thesis
    using assms(1) i video_resume_frame setVideoStatus_all_frame
    by (auto simp: video_needs_logo_def sys')
qed

lemma run_video_needs_logo:
  "video_needs_logo sys \<Longrightarrow> list_all data_url_event es \<Longrightarrow> run es sys = Some sys'
   \<Longrightarrow> video_needs_logo sys'"
proof (induction es arbitrary: sys)
  case Nil
  then show ?case by simp
next
  case (Cons e es)
  then show ?case
    by (auto split: option.splits dest: step_video_needs_logo)
qed

lemma initial_video_needs_logo: "video_needs_logo initial_system"
  by (simp add: video_needs_logo_def initial_system_def initial_state_def)

lemma reachable_video_needs_logo:
  assumes "list_all data_url_event es" and "run es initial_system = Some sys"
  shows "generatedVideoUrl (app sys) \<noteq> None \<longrightarrow> logoImageBase64 (app sys) \<noteq> None"
  using run_video_needs_logo [OF initial_video_needs_logo assms]
  by (simp add: video_needs_logo_def)

end
